theory Spec2Isabelle
  imports Complex_Main
begin

section \<open>JavaScript values\<close>

text \<open>
  The service receives its \<open>imageStreamTag\<close> as \<open>any\<close> and returns object literals, so
  both sides are modelled by one type of JSON-like values. An object is the list of its
  own enumerable properties in JavaScript's iteration order (each key once; keys that
  are array indices come first, in ascending order, then the other keys as they were
  created); an array is the list of its elements. Strings are lists of ASCII
  characters; case conversion and white space are those of ASCII.

  A number is a double. The numbers the service meets are whole: the port numbers that
  \<open>parseInt\<close> reads, the \<open>length\<close> that lodash inspects, the literal 1. So a number is an
  integer that is a double, or an infinity (\<open>parseInt\<close> of a very long run of digits);
  \<open>-0\<close> is not told from \<open>0\<close>, which print alike.
\<close>

datatype number = Finite int | PlusInfinity | MinusInfinity

datatype jsval =
    JUndefined
  | JNull
  | JBool bool
  | JNum number
  | JStr string
  | JArr "jsval list"
  | JObj "(string \<times> jsval) list"

datatype js_error = TypeError

fun truthy :: "jsval \<Rightarrow> bool" where
  "truthy JUndefined = False"
| "truthy JNull = False"
| "truthy (JBool b) = b"
| "truthy (JNum n) = (n \<noteq> Finite 0)"
| "truthy (JStr s) = (s \<noteq> [])"
| "truthy (JArr xs) = True"
| "truthy (JObj kvs) = True"

definition nullish :: "jsval \<Rightarrow> bool" where
  "nullish v = (v = JUndefined \<or> v = JNull)"

definition own_property :: "(string \<times> jsval) list \<Rightarrow> string \<Rightarrow> jsval" where
  "own_property kvs k = (case map_of kvs k of None \<Rightarrow> JUndefined | Some v \<Rightarrow> v)"

text \<open>
  \<open>js_prop v k\<close> is \<open>v[k]\<close> for a value that is neither \<open>undefined\<close> nor \<open>null\<close> and a key
  that no built-in prototype defines (\<open>image\<close>, \<open>metadata\<close>, \<open>name\<close>, \<open>namespace\<close>,
  \<open>dockerImageMetadata\<close>, \<open>Config\<close>, \<open>ContainerConfig\<close>, \<open>ExposedPorts\<close>): only an object has it.
\<close>

fun js_prop :: "jsval \<Rightarrow> string \<Rightarrow> jsval" where
  "js_prop (JObj kvs) k = own_property kvs k"
| "js_prop v k = JUndefined"

text \<open>\<open>member v k\<close> is the expression \<open>v.k\<close>: reading a property of \<open>undefined\<close> or \<open>null\<close> throws.\<close>

definition member :: "jsval \<Rightarrow> string \<Rightarrow> js_error + jsval" where
  "member v k = (if nullish v then Inl TypeError else Inr (js_prop v k))"

text \<open>Paths into a value: property names and array indices.\<close>

datatype step = Key string | Idx nat

fun get_step :: "jsval \<Rightarrow> step \<Rightarrow> jsval" where
  "get_step (JObj kvs) (Key k) = own_property kvs k"
| "get_step (JArr xs) (Idx i) = (if i < length xs then xs ! i else JUndefined)"
| "get_step v s = JUndefined"

definition get_path :: "jsval \<Rightarrow> step list \<Rightarrow> jsval" where
  "get_path v p = foldl get_step v p"

fun has_key :: "jsval \<Rightarrow> string \<Rightarrow> bool" where
  "has_key (JObj kvs) k = (k \<in> fst ` set kvs)"
| "has_key v k = False"

text \<open>
  \<open>set_property kvs k f\<close> is the assignment \<open>o[k] = f (o[k])\<close> on the property list of
  \<open>o\<close>: an existing property keeps its place, a new one is added last.
\<close>

fun set_property :: "(string \<times> jsval) list \<Rightarrow> string \<Rightarrow> (jsval \<Rightarrow> jsval) \<Rightarrow> (string \<times> jsval) list" where
  "set_property [] k f = [(k, f JUndefined)]"
| "set_property ((k', v) # kvs) k f =
     (if k' = k then (k', f v) # kvs else (k', v) # set_property kvs k f)"

text \<open>
  \<open>assign_path o p v\<close> is the assignment \<open>o.p\<^sub>1. \<dots> .p\<^sub>n = v\<close> on a value whose inner
  objects and array slots exist (elsewhere the value is returned as it is).
\<close>

fun assign_path :: "jsval \<Rightarrow> step list \<Rightarrow> jsval \<Rightarrow> jsval" where
  "assign_path ob [] v = v"
| "assign_path (JObj kvs) (Key k # p) v = JObj (set_property kvs k (\<lambda>x. assign_path x p v))"
| "assign_path (JArr xs) (Idx i # p) v =
     (if i < length xs then JArr (xs[i := assign_path (xs ! i) p v]) else JArr xs)"
| "assign_path ob (s # p) v = ob"

section \<open>Strings and numbers\<close>

definition toUpperChar :: "char \<Rightarrow> char" where
  "toUpperChar c =
     (case map_of (zip ''abcdefghijklmnopqrstuvwxyz'' ''ABCDEFGHIJKLMNOPQRSTUVWXYZ'') c of
        None \<Rightarrow> c | Some u \<Rightarrow> u)"

definition toLowerChar :: "char \<Rightarrow> char" where
  "toLowerChar c =
     (case map_of (zip ''ABCDEFGHIJKLMNOPQRSTUVWXYZ'' ''abcdefghijklmnopqrstuvwxyz'') c of
        None \<Rightarrow> c | Some l \<Rightarrow> l)"

definition toUpperCase :: "string \<Rightarrow> string" where
  "toUpperCase s = map toUpperChar s"

definition toLowerCase :: "string \<Rightarrow> string" where
  "toLowerCase s = map toLowerChar s"

text \<open>\<open>split_on c s\<close> is \<open>s.split(c)\<close> for a one-character separator: never empty.\<close>

fun split_on :: "char \<Rightarrow> string \<Rightarrow> string list" where
  "split_on c [] = [[]]"
| "split_on c (x # xs) =
     (if x = c then [] # split_on c xs
      else (case split_on c xs of [] \<Rightarrow> [[x]] | p # ps \<Rightarrow> (x # p) # ps))"

definition digitValue :: "char \<Rightarrow> nat option" where
  "digitValue c = map_of (zip ''0123456789'' [0, 1, 2, 3, 4, 5, 6, 7, 8, 9]) c"

definition isDigit :: "char \<Rightarrow> bool" where
  "isDigit c = (digitValue c \<noteq> None)"

text \<open>
  The white space that \<open>parseInt\<close> skips, as far as ASCII has it: tab, line feed,
  vertical tab, form feed, carriage return and space.
\<close>

definition isWhiteSpace :: "char \<Rightarrow> bool" where
  "isWhiteSpace c = (c \<in> set [CHR 0x09, CHR 0x0A, CHR 0x0B, CHR 0x0C, CHR 0x0D, CHR 0x20])"

definition mathInt :: "string \<Rightarrow> nat" where
  "mathInt Z = foldl (\<lambda>a c. 10 * a + (case digitValue c of None \<Rightarrow> 0 | Some d \<Rightarrow> d)) 0 Z"

text \<open>
  The double nearest to a natural number, \<open>None\<close> when that is beyond the largest double.
  Up to \<open>2^53\<close> every natural number is a double. Above, a number of \<open>b\<close> binary digits
  lies between doubles that are \<open>2^(b - 53)\<close> apart; the nearer one is taken, the one with
  the even significand at a tie, and from \<open>2^1024\<close> on the result overflows.
\<close>

function bit_length :: "nat \<Rightarrow> nat" where
  "bit_length n = (if n = 0 then 0 else Suc (bit_length (n div 2)))"
  by pat_completeness auto
termination
  by (relation "measure id") auto

declare bit_length.simps [simp del]

definition nearest_double :: "nat \<Rightarrow> nat option" where
  "nearest_double n =
     (if n \<le> 2 ^ 53 then Some n
      else (let ulp = 2 ^ (bit_length n - 53);
                q = n div ulp;
                r = n mod ulp;
                m = (if 2 * r < ulp then q else if ulp < 2 * r then q + 1
                     else if even q then q else q + 1)
            in if 2 ^ 1024 \<le> m * ulp then None else Some (m * ulp)))"

definition to_double :: "int \<Rightarrow> number" where
  "to_double i =
     (case nearest_double (nat \<bar>i\<bar>) of
        None \<Rightarrow> if i < 0 then MinusInfinity else PlusInfinity
      | Some m \<Rightarrow> Finite (if i < 0 then - int m else int m))"

text \<open>
  \<open>parseInt s\<close> is \<open>parseInt(s, 10)\<close>: leading white space is dropped, one sign is read,
  then the longest run of decimal digits; \<open>None\<close> is \<open>NaN\<close> (no digit there). With radix
  10 given, no \<open>0x\<close> prefix is recognised. The result is the double of the signed value
  of the digits (all digits count, as the engines have it).
\<close>

definition parseInt :: "string \<Rightarrow> number option" where
  "parseInt inputString =
     (let S = dropWhile isWhiteSpace inputString;
          sign = (if take 1 S = ''-'' then - 1 else 1);
          S' = (if take 1 S = ''-'' \<or> take 1 S = ''+'' then drop 1 S else S);
          Z = takeWhile isDigit S'
      in if Z = [] then None else Some (to_double (sign * int (mathInt Z))))"

definition digitChar :: "nat \<Rightarrow> char" where
  "digitChar d = ''0123456789abcdefghijklmnopqrstuvwxyz'' ! d"

function radix_digits :: "nat \<Rightarrow> nat \<Rightarrow> string" where
  "radix_digits b n =
     (if b < 2 \<or> n < b then [digitChar n]
      else radix_digits b (n div b) @ [digitChar (n mod b)])"
  by pat_completeness auto
termination
  by (relation "measure (\<lambda>(b, n). n)") auto

declare radix_digits.simps [simp del]

text \<open>
  \<open>toString_radix b n\<close> is \<open>n.toString(b)\<close> for an integer \<open>n\<close> up to \<open>2^53\<close> in size and
  \<open>2 \<le> b \<le> 36\<close>.
\<close>

definition toString_radix :: "nat \<Rightarrow> int \<Rightarrow> string" where
  "toString_radix b n =
     (if n < 0 then CHR ''-'' # radix_digits b (nat (- n)) else radix_digits b (nat n))"

text \<open>
  \<open>number_toString v\<close> is the text of a number, as \<open>+\<close> with a string makes it. A whole
  number up to \<open>2^53\<close> prints its digits. A larger double \<open>x\<close> prints the fewest digits
  \<open>s\<close> (at most 17) that, followed by zeros up to \<open>n\<close> digits in all, still read back as
  \<open>x\<close>, the nearest such value if several do; they are followed by the zeros when
  \<open>n \<le> 21\<close> and written with an exponent otherwise.
\<close>

definition round_trip_candidates :: "nat \<Rightarrow> nat \<Rightarrow> (nat \<times> nat) list" where
  "round_trip_candidates x k =
     (let d = length (radix_digits 10 x)
      in filter (\<lambda>(s, n). 10 ^ (k - 1) \<le> s \<and> s < 10 ^ k \<and> k \<le> n \<and>
                          nearest_double (s * 10 ^ (n - k)) = Some x)
           [(x div 10 ^ (d - k), d), (x div 10 ^ (d - k) + 1, d),
            (x div 10 ^ (d + 1 - k), d + 1), (x div 10 ^ (d + 1 - k) + 1, d + 1)])"

definition closer :: "nat \<Rightarrow> nat \<Rightarrow> nat \<times> nat \<Rightarrow> nat \<times> nat \<Rightarrow> nat \<times> nat" where
  "closer x k a b =
     (let da = \<bar>int (fst a * 10 ^ (snd a - k)) - int x\<bar>;
          db = \<bar>int (fst b * 10 ^ (snd b - k)) - int x\<bar>
      in if db < da \<or> (db = da \<and> even (fst b)) then b else a)"

definition shortest_digits :: "nat \<Rightarrow> nat \<times> nat" where
  "shortest_digits x =
     (case List.find (\<lambda>k. round_trip_candidates x k \<noteq> []) [1 ..< 18] of
        None \<Rightarrow> (x, length (radix_digits 10 x))
      | Some k \<Rightarrow> (case round_trip_candidates x k of
                     [] \<Rightarrow> (x, length (radix_digits 10 x))
                   | c # cs \<Rightarrow> foldl (closer x k) c cs))"

definition positive_toString :: "nat \<Rightarrow> string" where
  "positive_toString x =
     (if x \<le> 2 ^ 53 then radix_digits 10 x
      else (let (s, n) = shortest_digits x;
                digits = radix_digits 10 s;
                k = length digits
            in if n \<le> 21 then digits @ replicate (n - k) (CHR ''0'')
               else if k = 1 then digits @ ''e+'' @ radix_digits 10 (n - 1)
               else take 1 digits @ ''.'' @ drop 1 digits @ ''e+'' @ radix_digits 10 (n - 1)))"

definition number_toString :: "number \<Rightarrow> string" where
  "number_toString v =
     (case v of
        PlusInfinity \<Rightarrow> ''Infinity''
      | MinusInfinity \<Rightarrow> ''-Infinity''
      | Finite n \<Rightarrow>
          if n < 0 then CHR ''-'' # positive_toString (nat (- n)) else positive_toString (nat n))"

section \<open>The lodash functions the service calls\<close>

text \<open>
  \<open>_.get(object, path, defaultValue)\<close> of lodash 4 with a string path. \<open>castPath\<close> takes
  the whole string as one key when the object has a property of that very name
  (\<open>isKey\<close>: \<open>value in Object(object)\<close>); otherwise \<open>stringToPath\<close> cuts it at the dots (the
  paths used here have no brackets). \<open>baseGet\<close> walks the keys while the value is neither
  \<open>undefined\<close> nor \<open>null\<close> and answers \<open>undefined\<close> unless it used every key; \<open>get\<close> puts the
  default in place of \<open>undefined\<close> only.
\<close>

definition castPath :: "string \<Rightarrow> jsval \<Rightarrow> string list" where
  "castPath path object = (if has_key object path then [path] else split_on (CHR ''.'') path)"

fun baseGet_loop :: "jsval \<Rightarrow> string list \<Rightarrow> jsval" where
  "baseGet_loop object [] = object"
| "baseGet_loop object (k # ks) =
     (if nullish object then JUndefined else baseGet_loop (js_prop object k) ks)"

definition baseGet :: "jsval \<Rightarrow> string \<Rightarrow> jsval" where
  "baseGet object path =
     (let keys = castPath path object
      in if keys = [] then JUndefined else baseGet_loop object keys)"

definition lodash_get :: "jsval \<Rightarrow> string \<Rightarrow> jsval \<Rightarrow> jsval" where
  "lodash_get object path defaultValue =
     (let result = (if nullish object then JUndefined else baseGet object path)
      in if result = JUndefined then defaultValue else result)"

text \<open>
  \<open>_.each(collection, iteratee)\<close> calls the iteratee with \<open>(value, key)\<close>. Nothing is
  visited for \<open>undefined\<close> and \<open>null\<close>. An array, a string and any object whose \<open>length\<close>
  is an integer from 0 to \<open>2^53 - 1\<close> is array-like and is visited by index, the key being
  the number. Every other value is visited by its own enumerable string keys, in order:
  a number or a boolean has none. \<open>each_entries\<close> lists the visits.
\<close>

datatype each_key = Key_string string | Key_index nat

fun js_length :: "jsval \<Rightarrow> jsval" where
  "js_length (JStr s) = JNum (Finite (int (length s)))"
| "js_length (JArr xs) = JNum (Finite (int (length xs)))"
| "js_length (JObj kvs) = own_property kvs ''length''"
| "js_length v = JUndefined"

fun isLength :: "jsval \<Rightarrow> bool" where
  "isLength (JNum (Finite n)) = (- 1 < n \<and> n \<le> 9007199254740991)"
| "isLength v = False"

definition isArrayLike :: "jsval \<Rightarrow> bool" where
  "isArrayLike v = (\<not> nullish v \<and> isLength (js_length v))"

fun js_index :: "jsval \<Rightarrow> nat \<Rightarrow> jsval" where
  "js_index (JArr xs) i = (if i < length xs then xs ! i else JUndefined)"
| "js_index (JStr s) i = (if i < length s then JStr [s ! i] else JUndefined)"
| "js_index (JObj kvs) i = own_property kvs (number_toString (Finite (int i)))"
| "js_index v i = JUndefined"

definition each_entries :: "jsval \<Rightarrow> (each_key \<times> jsval) list" where
  "each_entries collection =
     (if nullish collection then []
      else if isArrayLike collection then
        (case js_length collection of
           JNum (Finite n) \<Rightarrow> map (\<lambda>i. (Key_index i, js_index collection i)) [0 ..< nat n]
         | _ \<Rightarrow> [])
      else (case collection of
              JObj kvs \<Rightarrow> map (\<lambda>(k, v). (Key_string k, v)) kvs
            | _ \<Rightarrow> []))"

text \<open>\<open>_.head(array)\<close>: the first element, \<open>undefined\<close> (here \<open>None\<close>) for an empty array.\<close>

definition lodash_head :: "'a list \<Rightarrow> 'a option" where
  "lodash_head array = (case array of [] \<Rightarrow> None | x # _ \<Rightarrow> Some x)"

text \<open>
  \<open>_.assignWith(object, source)\<close> without a customizer assigns each own property of the
  source to the object, in the source's order.
\<close>

definition lodash_assignWith :: "(string \<times> jsval) list \<Rightarrow> (string \<times> jsval) list \<Rightarrow> (string \<times> jsval) list" where
  "lodash_assignWith object source = foldl (\<lambda>ob (k, v). set_property ob k (\<lambda>_. v)) object source"

section \<open>The builder service\<close>

text \<open>
  \<open>IBuilderAppConfig\<close>. The two optional texts are \<open>None\<close> when the property is absent
  (\<open>undefined\<close>); \<open>imageStreamTag\<close> is \<open>any\<close>.
\<close>

record IBuilderAppConfig =
  name :: string
  repository :: string
  gitRef :: "string option"
  contextDir :: "string option"
  imageStreamTag :: jsval

definition optional_string :: "string option \<Rightarrow> jsval" where
  "optional_string s = (case s of None \<Rightarrow> JUndefined | Some t \<Rightarrow> JStr t)"

text \<open>A parsed port, the object \<open>{containerPort: \<dots>, protocol: \<dots>}\<close>.\<close>

record port =
  containerPort :: number
  protocol :: string

definition port_object :: "port \<Rightarrow> jsval" where
  "port_object p = JObj [(''containerPort'', JNum (containerPort p)), (''protocol'', JStr (protocol p))]"

subsection \<open>generateSecret\<close>

text \<open>
  \<open>Math.random\<close> is a generator: its state is the sequence of the numbers it will still
  return, each a double in \<open>[0, 1)\<close> and so a rational. \<open>1 + r\<close> is a double addition:
  its result lies in \<open>[1, 2]\<close>, where the doubles are the multiples of \<open>2^-52\<close>, and is the
  nearest of them, the even one at a tie. Multiplying by \<open>0x10000\<close> and \<open>Math.floor\<close> are
  exact.
\<close>

type_synonym rng = "nat \<Rightarrow> rat"

definition Math_random :: "rng \<Rightarrow> rat \<times> rng" where
  "Math_random g = (g 0, \<lambda>i. g (Suc i))"

definition round_ties_even :: "rat \<Rightarrow> int" where
  "round_ties_even x =
     (let f = \<lfloor>x\<rfloor>; d = x - of_int f
      in if d < 1 / 2 then f else if 1 / 2 < d then f + 1 else if even f then f else f + 1)"

definition double_one_plus :: "rat \<Rightarrow> rat" where
  "double_one_plus r = of_int (round_ties_even ((1 + r) * 2 ^ 52)) / 2 ^ 52"

definition s4 :: "rng \<Rightarrow> string \<times> rng" where
  "s4 g =
     (let (r, g') = Math_random g
      in (drop 1 (toString_radix 16 \<lfloor>double_one_plus r * 65536\<rfloor>), g'))"

definition generateSecret :: "rng \<Rightarrow> string \<times> rng" where
  "generateSecret g =
     (let (a, g1) = s4 g; (b, g2) = s4 g1; (c, g3) = s4 g2; (d, g4) = s4 g3
      in (a @ b @ c @ d, g4))"

subsection \<open>parsePortsFromSpec and getPorts\<close>

text \<open>
  The iteratee is a \<open>function\<close> expression, not an arrow function, and lodash calls it
  without a receiver. Its \<open>this\<close> is therefore \<open>undefined\<close> in strict code, which the code
  of a module (this file has an \<open>import\<close>) is, and the global object in sloppy code, where
  \<open>this.Logger.warn\<close> is callable only when a global \<open>Logger\<close> with a function \<open>warn\<close>
  happens to exist. The class itself declares no \<open>Logger\<close>.
\<close>

datatype this_binding = This_undefined | This_global bool

text \<open>\<open>this.Logger.warn(message)\<close>; the state is the list of warnings logged so far.\<close>

definition Logger_warn :: "this_binding \<Rightarrow> string \<Rightarrow> string list \<Rightarrow> js_error + string list" where
  "Logger_warn this message warnings =
     (case this of
        This_undefined \<Rightarrow> Inl TypeError
      | This_global has_warn \<Rightarrow> if has_warn then Inr (warnings @ [message]) else Inl TypeError)"

text \<open>
  One call of the iteratee, on the array \<open>ports\<close> and the log. A numeric key has no
  \<open>split\<close>. \<open>parts[0]\<close> of an empty array would be \<open>undefined\<close>, which both \<open>parseInt\<close> and
  \<open>+\<close> read as the text \<open>undefined\<close>, and \<open>parts[1].toUpperCase()\<close> throws when
  \<open>parts[1]\<close> is missing.
\<close>

definition iteratee :: "this_binding \<Rightarrow> each_key \<Rightarrow> port list \<times> string list \<Rightarrow> js_error + port list \<times> string list" where
  "iteratee this key state =
     (case key of
        Key_index i \<Rightarrow> Inl TypeError
      | Key_string k \<Rightarrow>
          (let (ports, warnings) = state;
               parts = split_on (CHR ''/'') k;
               parts = (if length parts = 1 then parts @ [''tcp''] else parts);
               parts0 = (case parts of [] \<Rightarrow> ''undefined'' | p # _ \<Rightarrow> p)
           in case parseInt parts0 of
                None \<Rightarrow>
                  (case Logger_warn this (''Container port '' @ parts0 @ '' is not a number'') warnings of
                     Inl e \<Rightarrow> Inl e
                   | Inr warnings' \<Rightarrow> Inr (ports, warnings'))
              | Some n \<Rightarrow>
                  (case drop 1 parts of
                     [] \<Rightarrow> Inl TypeError
                   | p1 # _ \<Rightarrow>
                       Inr (ports @ [\<lparr>containerPort = n, protocol = toUpperCase p1\<rparr>], warnings))))"

text \<open>The loop of \<open>_.each\<close>: the iteratee never returns \<open>false\<close>, so only a throw ends it early.\<close>

fun each_loop :: "this_binding \<Rightarrow> (each_key \<times> jsval) list \<Rightarrow> port list \<times> string list \<Rightarrow> js_error + port list \<times> string list" where
  "each_loop this [] state = Inr state"
| "each_loop this ((key, v) # entries) state =
     (case iteratee this key state of
        Inl e \<Rightarrow> Inl e
      | Inr state' \<Rightarrow> each_loop this entries state')"

text \<open>The result is the array \<open>ports\<close> together with the warnings logged.\<close>

definition parsePortsFromSpec :: "this_binding \<Rightarrow> jsval \<Rightarrow> js_error + port list \<times> string list" where
  "parsePortsFromSpec this portSpec = each_loop this (each_entries portSpec) ([], [])"

definition getPorts :: "this_binding \<Rightarrow> jsval \<Rightarrow> js_error + port list \<times> string list" where
  "getPorts this imageStreamTag' =
     (case member imageStreamTag' ''image'' of
        Inl e \<Rightarrow> Inl e
      | Inr image' \<Rightarrow>
          (let first = lodash_get image' ''dockerImageMetadata.Config.ExposedPorts'' JUndefined;
               portSpec = (if truthy first then first
                           else lodash_get image' ''dockerImageMetadata.ContainerConfig.ExposedPorts'' (JArr []))
           in parsePortsFromSpec this portSpec))"

subsection \<open>The object builders\<close>

definition getAnnotations :: jsval where
  "getAnnotations = JObj [(''openshift.io/generated-by'', JStr ''OpenShiftWebConsole'')]"

definition getLabels :: "IBuilderAppConfig \<Rightarrow> jsval" where
  "getLabels config = JObj [(''app'', JStr (name config))]"

definition getPortName :: "port \<Rightarrow> string" where
  "getPortName p = toLowerCase (number_toString (containerPort p) @ ''-'' @ protocol p)"

definition makeRoute :: "IBuilderAppConfig \<Rightarrow> port \<Rightarrow> jsval" where
  "makeRoute config p =
     JObj [
       (''kind'', JStr ''Route''),
       (''apiVersion'', JStr ''v1''),
       (''metadata'', JObj [
          (''name'', JStr (name config)),
          (''labels'', getLabels config),
          (''annotations'', getAnnotations)]),
       (''spec'', JObj [
          (''to'', JObj [
             (''kind'', JStr ''Service''),
             (''name'', JStr (name config))]),
          (''port'', JObj [
             (''targetPort'', JStr (getPortName p))]),
          (''wildcardPolicy'', JStr ''None'')])]"

definition makeService :: "IBuilderAppConfig \<Rightarrow> port \<Rightarrow> jsval" where
  "makeService config p =
     JObj [
       (''kind'', JStr ''Service''),
       (''apiVersion'', JStr ''v1''),
       (''metadata'', JObj [
          (''name'', JStr (name config)),
          (''labels'', getLabels config),
          (''annotations'', getAnnotations)]),
       (''spec'', JObj [
          (''selector'', JObj [
             (''deploymentconfig'', JStr (name config))]),
          (''ports'', JArr [JObj [
             (''port'', JNum (containerPort p)),
             (''targetPort'', JNum (containerPort p)),
             (''protocol'', JStr (protocol p)),
             (''name'', JStr (getPortName p))]])])]"

fun properties :: "jsval \<Rightarrow> (string \<times> jsval) list" where
  "properties (JObj kvs) = kvs"
| "properties v = []"

definition makeDeploymentConfig :: "IBuilderAppConfig \<Rightarrow> port list \<Rightarrow> jsval" where
  "makeDeploymentConfig config ports =
     JObj [
       (''apiVersion'', JStr ''v1''),
       (''kind'', JStr ''DeploymentConfig''),
       (''metadata'', JObj [
          (''name'', JStr (name config)),
          (''labels'', getLabels config),
          (''annotations'', getAnnotations)]),
       (''spec'', JObj [
          (''replicas'', JNum (Finite 1)),
          (''selector'', JObj [
             (''deploymentconfig'', JStr (name config))]),
          (''triggers'', JArr [
             JObj [
               (''type'', JStr ''ImageChange''),
               (''imageChangeParams'', JObj [
                  (''automatic'', JBool True),
                  (''containerNames'', JArr [JStr (name config)]),
                  (''from'', JObj [
                     (''kind'', JStr ''ImageStreamTag''),
                     (''name'', JStr (name config @ '':latest''))])])],
             JObj [
               (''type'', JStr ''ConfigChange'')]]),
          (''template'', JObj [
             (''metadata'', JObj [
                (''labels'', JObj (lodash_assignWith
                   [(''deploymentconfig'', JStr (name config))]
                   (properties (getLabels config))))]),
             (''spec'', JObj [
                (''containers'', JArr [JObj [
                   (''name'', JStr (name config)),
                   (''image'', JStr (name config @ '':latest'')),
                   (''ports'', JArr (map port_object ports)),
                   (''env'', JArr [])]])])])])]"

text \<open>
  The object literal is evaluated in source order: \<open>config.imageStreamTag.metadata\<close> is
  read (twice) before the two secrets are drawn, the generic one first. The conditional
  assignment then adds \<open>contextDir\<close> to \<open>bc.spec.source\<close>.
\<close>

definition makeBuildConfig :: "IBuilderAppConfig \<Rightarrow> rng \<Rightarrow> js_error + jsval \<times> rng" where
  "makeBuildConfig config g =
     (case member (imageStreamTag config) ''metadata'' of
        Inl e \<Rightarrow> Inl e
      | Inr metadata1 \<Rightarrow>
     (case member metadata1 ''name'' of
        Inl e \<Rightarrow> Inl e
      | Inr from_name \<Rightarrow>
     (case member (imageStreamTag config) ''metadata'' of
        Inl e \<Rightarrow> Inl e
      | Inr metadata2 \<Rightarrow>
     (case member metadata2 ''namespace'' of
        Inl e \<Rightarrow> Inl e
      | Inr from_namespace \<Rightarrow>
          (let (secret1, g1) = generateSecret g;
               (secret2, g2) = generateSecret g1;
               bc = JObj [
                 (''apiVersion'', JStr ''v1''),
                 (''kind'', JStr ''BuildConfig''),
                 (''metadata'', JObj [
                    (''name'', JStr (name config)),
                    (''labels'', getLabels config),
                    (''annotations'', getAnnotations)]),
                 (''spec'', JObj [
                    (''output'', JObj [
                       (''to'', JObj [
                          (''kind'', JStr ''ImageStreamTag''),
                          (''name'', JStr (name config @ '':latest''))])]),
                    (''source'', JObj [
                       (''git'', JObj [
                          (''ref'', (if truthy (optional_string (gitRef config))
                                     then optional_string (gitRef config) else JStr ''master'')),
                          (''uri'', JStr (repository config))]),
                       (''type'', JStr ''Git'')]),
                    (''strategy'', JObj [
                       (''type'', JStr ''Source''),
                       (''sourceStrategy'', JObj [
                          (''from'', JObj [
                             (''kind'', JStr ''ImageStreamTag''),
                             (''name'', from_name),
                             (''namespace'', from_namespace)]),
                          (''env'', JArr [])])]),
                    (''triggers'', JArr [
                       JObj [
                         (''type'', JStr ''ImageChange''),
                         (''imageChange'', JObj [])],
                       JObj [
                         (''type'', JStr ''ConfigChange'')],
                       JObj [
                         (''generic'', JObj [
                            (''secret'', JStr secret1)]),
                         (''type'', JStr ''Generic'')],
                       JObj [
                         (''github'', JObj [
                            (''secret'', JStr secret2)]),
                         (''type'', JStr ''GitHub'')]])])];
               bc = (if truthy (optional_string (contextDir config))
                     then assign_path bc [Key ''spec'', Key ''source'', Key ''contextDir'']
                            (optional_string (contextDir config))
                     else bc)
           in Inr (bc, g2))))))"

definition makeImageStream :: "IBuilderAppConfig \<Rightarrow> jsval" where
  "makeImageStream config =
     JObj [
       (''apiVersion'', JStr ''v1''),
       (''kind'', JStr ''ImageStream''),
       (''metadata'', JObj [
          (''name'', JStr (name config)),
          (''labels'', getLabels config),
          (''annotations'', getAnnotations)])]"

text \<open>
  \<open>makeAPIObjects\<close> returns the objects, the warnings logged on the way and the state of
  the generator. An \<open>if (firstPort)\<close> on a port object or \<open>undefined\<close> asks whether there
  is a first port.
\<close>

definition makeAPIObjects :: "this_binding \<Rightarrow> IBuilderAppConfig \<Rightarrow> rng \<Rightarrow> js_error + jsval list \<times> string list \<times> rng" where
  "makeAPIObjects this config g =
     (case getPorts this (imageStreamTag config) of
        Inl e \<Rightarrow> Inl e
      | Inr (ports, warnings) \<Rightarrow>
          (let firstPort = lodash_head ports
           in case makeBuildConfig config g of
                Inl e \<Rightarrow> Inl e
              | Inr (bc, g') \<Rightarrow>
                  (let objects = [makeImageStream config, bc, makeDeploymentConfig config ports];
                       objects = (case firstPort of
                                    None \<Rightarrow> objects
                                  | Some p \<Rightarrow> objects @ [makeService config p, makeRoute config p])
                   in Inr (objects, warnings, g'))))"

section \<open>Notions used to state the properties\<close>

subsection \<open>Port keys\<close>

text \<open>
  What a key of the exposed-ports mapping denotes, read off the key directly: its
  segments between slashes, the protocol (the second segment, \<open>tcp\<close> when there is one
  segment only), and the port it stands for when its first segment parses.
\<close>

definition spec_protocol :: "string \<Rightarrow> string" where
  "spec_protocol key =
     (let segments = split_on (CHR ''/'') key
      in if length segments = 1 then ''tcp'' else segments ! 1)"

definition spec_port :: "string \<Rightarrow> port option" where
  "spec_port key =
     (case parseInt (hd (split_on (CHR ''/'') key)) of
        None \<Rightarrow> None
      | Some n \<Rightarrow> Some \<lparr>containerPort = n, protocol = toUpperCase (spec_protocol key)\<rparr>)"

definition spec_warning :: "string \<Rightarrow> string" where
  "spec_warning key = ''Container port '' @ hd (split_on (CHR ''/'') key) @ '' is not a number''"

definition warn_callable :: "this_binding \<Rightarrow> bool" where
  "warn_callable this = (this = This_global True)"

text \<open>The number a run of decimal digits denotes, by position.\<close>

fun decimal :: "string \<Rightarrow> nat" where
  "decimal [] = 0"
| "decimal (c # cs) = the (digitValue c) * 10 ^ length cs + decimal cs"



text \<open>
  The order in which JavaScript lists the own string keys of an object: no key twice,
  first the array indices (canonical decimal texts below \<open>2^32 - 1\<close>) in ascending order,
  then the other keys.
\<close>

definition isArrayIndex :: "string \<Rightarrow> bool" where
  "isArrayIndex k =
     (k \<noteq> [] \<and> list_all isDigit k \<and> (k = ''0'' \<or> hd k \<noteq> CHR ''0'') \<and> decimal k < 4294967295)"

definition own_key_order :: "string list \<Rightarrow> bool" where
  "own_key_order keys =
     (distinct keys \<and>
      sorted_wrt (<) (map decimal (takeWhile isArrayIndex keys)) \<and>
      list_all (\<lambda>k. \<not> isArrayIndex k) (dropWhile isArrayIndex keys))"

subsection \<open>The port metadata of an image\<close>

text \<open>
  The exposed-ports value by the two documented paths: \<open>Config\<close> first, \<open>ContainerConfig\<close>
  when the first is absent or falsy, the empty mapping when the second is absent too.
\<close>

definition config_ports :: "jsval \<Rightarrow> jsval" where
  "config_ports img = get_path img [Key ''dockerImageMetadata'', Key ''Config'', Key ''ExposedPorts'']"

definition container_config_ports :: "jsval \<Rightarrow> jsval" where
  "container_config_ports img =
     get_path img [Key ''dockerImageMetadata'', Key ''ContainerConfig'', Key ''ExposedPorts'']"

definition spec_portSpec :: "jsval \<Rightarrow> jsval" where
  "spec_portSpec img =
     (if truthy (config_ports img) then config_ports img
      else if container_config_ports img = JUndefined then JObj []
      else container_config_ports img)"

text \<open>
  lodash reads a dotted path as one key when the object has a property of that very
  name; an image has none.
\<close>

definition no_dotted_key :: "jsval \<Rightarrow> bool" where
  "no_dotted_key img =
     (\<not> has_key img ''dockerImageMetadata.Config.ExposedPorts'' \<and>
      \<not> has_key img ''dockerImageMetadata.ContainerConfig.ExposedPorts'')"

subsection \<open>Fields of the produced objects\<close>

definition kind_of :: "jsval \<Rightarrow> jsval" where
  "kind_of ob = get_path ob [Key ''kind'']"

definition label_app :: "jsval \<Rightarrow> jsval" where
  "label_app ob = get_path ob [Key ''metadata'', Key ''labels'', Key ''app'']"

definition annotation_generated_by :: "jsval \<Rightarrow> jsval" where
  "annotation_generated_by ob =
     get_path ob [Key ''metadata'', Key ''annotations'', Key ''openshift.io/generated-by'']"

text \<open>
  \<open>makeBuildConfig\<close> reads \<open>config.imageStreamTag.metadata.name\<close> unguarded: the tag and
  its \<open>metadata\<close> have to be there.
\<close>

definition metadata_present :: "IBuilderAppConfig \<Rightarrow> bool" where
  "metadata_present config =
     (\<not> nullish (imageStreamTag config) \<and> \<not> nullish (js_prop (imageStreamTag config) ''metadata''))"

definition git_ref :: "jsval \<Rightarrow> jsval" where
  "git_ref bc = get_path bc [Key ''spec'', Key ''source'', Key ''git'', Key ''ref'']"

definition git_uri :: "jsval \<Rightarrow> jsval" where
  "git_uri bc = get_path bc [Key ''spec'', Key ''source'', Key ''git'', Key ''uri'']"

definition source_of :: "jsval \<Rightarrow> jsval" where
  "source_of bc = get_path bc [Key ''spec'', Key ''source'']"

definition service_ports :: "jsval \<Rightarrow> jsval" where
  "service_ports service = get_path service [Key ''spec'', Key ''ports'']"

definition route_targetPort :: "jsval \<Rightarrow> jsval" where
  "route_targetPort route = get_path route [Key ''spec'', Key ''port'', Key ''targetPort'']"

definition container_ports :: "jsval \<Rightarrow> jsval" where
  "container_ports dc =
     get_path dc [Key ''spec'', Key ''template'', Key ''spec'', Key ''containers'', Idx 0, Key ''ports'']"

subsection \<open>Secrets\<close>

definition generic_secret_path :: "step list" where
  "generic_secret_path = [Key ''spec'', Key ''triggers'', Idx 2, Key ''generic'', Key ''secret'']"

definition github_secret_path :: "step list" where
  "github_secret_path = [Key ''spec'', Key ''triggers'', Idx 3, Key ''github'', Key ''secret'']"

text \<open>A BuildConfig with both secrets blanked out: what is left is every other field.\<close>

definition mask_secrets :: "jsval \<Rightarrow> jsval" where
  "mask_secrets bc = assign_path (assign_path bc generic_secret_path JNull) github_secret_path JNull"

text \<open>The group of characters that \<open>s4\<close> makes of one number drawn.\<close>

definition group_of_draw :: "rat \<Rightarrow> string" where
  "group_of_draw r = fst (s4 (\<lambda>_. r))"

definition isHexDigit :: "char \<Rightarrow> bool" where
  "isHexDigit c = (c \<in> set ''0123456789abcdef'')"

definition isSecret :: "string \<Rightarrow> bool" where
  "isSecret s = (length s = 16 \<and> list_all isHexDigit s)"

subsection \<open>Example inputs\<close>

definition node_tag :: "(string \<times> jsval) list \<Rightarrow> jsval" where
  "node_tag dockerImageMetadata =
     JObj [
       (''metadata'', JObj [(''name'', JStr ''node''), (''namespace'', JStr ''openshift'')]),
       (''image'', JObj [(''dockerImageMetadata'', JObj dockerImageMetadata)])]"

definition example_config :: IBuilderAppConfig where
  "example_config =
     \<lparr>name = ''myapp'', repository = ''https://example.com/r.git'', gitRef = Some [],
      contextDir = Some [],
      imageStreamTag = node_tag [(''Config'', JObj [(''ExposedPorts'', JObj [(''8080/tcp'', JObj [])])])]\<rparr>"

definition example_config_no_ports :: IBuilderAppConfig where
  "example_config_no_ports =
     \<lparr>name = ''worker'', repository = ''https://example.com/w.git'', gitRef = None,
      contextDir = None,
      imageStreamTag = node_tag [(''Config'', JObj [])]\<rparr>"

definition example_config_branch :: IBuilderAppConfig where
  "example_config_branch =
     \<lparr>name = ''api'', repository = ''https://example.com/api.git'', gitRef = Some ''develop'',
      contextDir = Some ''server'',
      imageStreamTag = node_tag [(''ContainerConfig'', JObj [(''ExposedPorts'',
         JObj [(''9000'', JObj []), (''8443/tcp'', JObj []), (''53/udp'', JObj [])])])]\<rparr>"

section \<open>Lemmas\<close>

subsection \<open>Reading a port key\<close>

lemma split_on_not_Nil: "split_on c s \<noteq> []"
  by (induction s) (auto split: list.splits)











subsection \<open>The iteratee and the loop\<close>

lemma iteratee_string:
  "iteratee this (Key_string k) (ps, ws) =
     (case spec_port k of
        Some p \<Rightarrow> Inr (ps @ [p], ws)
      | None \<Rightarrow> (case Logger_warn this (spec_warning k) ws of
                   Inl e \<Rightarrow> Inl e
                 | Inr ws' \<Rightarrow> Inr (ps, ws')))"
proof (cases "split_on (CHR ''/'') k")
  case Nil
  then show ?thesis using split_on_not_Nil by blast
next
  case (Cons p0 rest)
  show ?thesis
  proof (cases rest)
    case Nil
    with Cons show ?thesis
      by (simp add: iteratee_def spec_port_def spec_protocol_def spec_warning_def split: option.splits)
  next
    case (Cons p1 rest')
    with \<open>split_on (CHR ''/'') k = p0 # rest\<close> show ?thesis
      by (simp add: iteratee_def spec_port_def spec_protocol_def spec_warning_def split: option.splits)
  qed
qed

lemma Logger_warn_cases:
  "Logger_warn this m ws = (if warn_callable this then Inr (ws @ [m]) else Inl TypeError)"
  by (cases this) (auto simp: Logger_warn_def warn_callable_def)

lemma each_loop_strings:
  "each_loop this (map (\<lambda>(k, v). (Key_string k, v)) kvs) (ps, ws) =
     (if (\<forall>k \<in> set (map fst kvs). spec_port k \<noteq> None) \<or> warn_callable this
      then Inr (ps @ List.map_filter spec_port (map fst kvs),
                ws @ map spec_warning (filter (\<lambda>k. spec_port k = None) (map fst kvs)))
      else Inl TypeError)"
proof (induction kvs arbitrary: ps ws)
  case Nil
  show ?case by (simp add: List.map_filter_simps)
next
  case (Cons kv kvs)
  obtain k v where kv: "kv = (k, v)" by (cases kv)
  show ?case
  proof (cases "spec_port k")
    case None
    then show ?thesis
      by (simp add: kv iteratee_string Logger_warn_cases Cons.IH List.map_filter_simps)
  next
    case (Some p)
    then show ?thesis
      by (simp add: kv iteratee_string Cons.IH List.map_filter_simps)
  qed
qed

lemma each_entries_mapping:
  "\<not> isArrayLike (JObj kvs) \<Longrightarrow> each_entries (JObj kvs) = map (\<lambda>(k, v). (Key_string k, v)) kvs"
  by (simp add: each_entries_def nullish_def)

lemma parsePortsFromSpec_mapping:
  assumes "\<not> isArrayLike (JObj kvs)"
  shows "parsePortsFromSpec this (JObj kvs) =
     (if (\<forall>k \<in> set (map fst kvs). spec_port k \<noteq> None) \<or> warn_callable this
      then Inr (List.map_filter spec_port (map fst kvs),
                map spec_warning (filter (\<lambda>k. spec_port k = None) (map fst kvs)))
      else Inl TypeError)"
  using each_loop_strings [of this kvs "[]" "[]"]
  by (simp add: parsePortsFromSpec_def each_entries_mapping [OF assms])

lemma parsePortsFromSpec_empty:
  "parsePortsFromSpec this (JArr []) = Inr ([], [])"
  "parsePortsFromSpec this (JObj []) = Inr ([], [])"
  "parsePortsFromSpec this JNull = Inr ([], [])"
  by (simp_all add: parsePortsFromSpec_def each_entries_def nullish_def isArrayLike_def own_property_def)

lemma single_key_not_arrayLike:
  "k \<noteq> ''length'' \<Longrightarrow> \<not> isArrayLike (JObj [(k, v)])"
  by (simp add: isArrayLike_def own_property_def)

subsection \<open>Paths and \<open>_.get\<close>\<close>

lemma get_path_undefined: "get_path JUndefined p = JUndefined"
  by (induction p) (simp_all add: get_path_def)

lemma get_path_nullish: "nullish v \<Longrightarrow> get_path v (s # p) = JUndefined"
  using get_path_undefined by (auto simp: nullish_def get_path_def)

lemma js_prop_get_step: "js_prop v k = get_step v (Key k)"
  by (cases v) simp_all

lemma baseGet_loop_get_path: "ks \<noteq> [] \<Longrightarrow> baseGet_loop v ks = get_path v (map Key ks)"
proof (induction ks arbitrary: v)
  case Nil
  then show ?case by simp
next
  case (Cons k ks)
  show ?case
  proof (cases "nullish v")
    case True
    then show ?thesis by (simp add: get_path_nullish)
  next
    case False
    show ?thesis
    proof (cases ks)
      case Nil
      with False show ?thesis by (simp add: get_path_def js_prop_get_step)
    next
      case (Cons k' ks')
      with False Cons.IH [of "js_prop v k"] show ?thesis
        by (simp add: get_path_def js_prop_get_step)
    qed
  qed
qed

lemma lodash_get_path:
  assumes "\<not> has_key object path"
  shows "lodash_get object path d =
     (let r = get_path object (map Key (split_on (CHR ''.'') path))
      in if r = JUndefined then d else r)"
proof (cases "nullish object")
  case True
  obtain s p where "map Key (split_on (CHR ''.'') path) = s # p"
    using split_on_not_Nil [of "CHR ''.''" path] by (cases "split_on (CHR ''.'') path") auto
  with True show ?thesis
    by (simp add: lodash_get_def get_path_nullish)
next
  case False
  with assms show ?thesis
    by (simp add: lodash_get_def baseGet_def castPath_def split_on_not_Nil baseGet_loop_get_path Let_def)
qed

lemma getPorts_spec:
  assumes "\<not> nullish ist" and "no_dotted_key (js_prop ist ''image'')"
  shows "getPorts this ist = parsePortsFromSpec this (spec_portSpec (js_prop ist ''image''))"
proof -
  have keys: "\<not> has_key (js_prop ist ''image'') ''dockerImageMetadata.Config.ExposedPorts''"
      "\<not> has_key (js_prop ist ''image'') ''dockerImageMetadata.ContainerConfig.ExposedPorts''"
    using assms(2) by (simp_all add: no_dotted_key_def)
  have "parsePortsFromSpec this (JArr []) = parsePortsFromSpec this (JObj [])"
    by (simp add: parsePortsFromSpec_empty)
  then show ?thesis
    using assms(1)
    by (simp add: getPorts_def member_def lodash_get_path [OF keys(1)] lodash_get_path [OF keys(2)]
        spec_portSpec_def config_ports_def container_config_ports_def Let_def)
qed

subsection \<open>Digits\<close>

lemma digitChar_hex: "d < 16 \<Longrightarrow> isHexDigit (digitChar d)"
proof -
  assume "d < 16"
  then have "d \<in> set [0, 1, 2, 3, 4, 5, 6, 7, 8, 9, 10, 11, 12, 13, 14, 15]"
    by simp arith
  then show ?thesis
    by (auto simp: digitChar_def isHexDigit_def)
qed

lemma radix_digits_hex: "list_all isHexDigit (radix_digits 16 n)"
proof (induction n rule: less_induct)
  case (less n)
  show ?case
  proof (cases "n < 16")
    case True
    then show ?thesis by (simp add: radix_digits.simps [of 16 n] digitChar_hex)
  next
    case False
    then have "n div 16 < n" by simp
    with less False show ?thesis
      by (simp add: radix_digits.simps [of 16 n] digitChar_hex)
  qed
qed

lemma radix_digits_length:
  "2 \<le> b \<Longrightarrow> b ^ k \<le> n \<Longrightarrow> n < b ^ Suc k \<Longrightarrow> length (radix_digits b n) = Suc k"
proof (induction k arbitrary: n)
  case 0
  then show ?case by (simp add: radix_digits.simps [of b n])
next
  case (Suc k)
  have "b \<le> b ^ Suc k"
    using Suc.prems(1) by (cases "b ^ k") auto
  then have "b \<le> n"
    using Suc.prems(2) by (rule order_trans)
  then have nb: "\<not> n < b" by simp
  have lo: "b ^ k \<le> n div b"
    using Suc.prems by (simp add: less_eq_div_iff_mult_less_eq mult.commute)
  have hi: "n div b < b ^ Suc k"
    using Suc.prems by (simp add: less_mult_imp_div_less mult.commute)
  show ?case
    using Suc.prems(1) nb Suc.IH [OF Suc.prems(1) lo hi]
    by (simp add: radix_digits.simps [of b n])
qed

subsection \<open>generateSecret\<close>

lemma round_ties_even_bounds: "\<lfloor>x\<rfloor> \<le> round_ties_even x \<and> round_ties_even x \<le> \<lceil>x\<rceil>"
  by (auto simp: round_ties_even_def Let_def ceiling_altdef)

lemma s4_floor_bounds:
  assumes "0 \<le> r" and "r < 1"
  shows "65536 \<le> \<lfloor>double_one_plus r * 65536\<rfloor> \<and> \<lfloor>double_one_plus r * 65536\<rfloor> \<le> 131072"
proof -
  define x where "x = (1 + r) * 2 ^ 52"
  define R where "R = round_ties_even x"
  have "(2::rat) ^ 52 \<le> x" using assms by (simp add: x_def)
  then have "(2::int) ^ 52 \<le> \<lfloor>x\<rfloor>" by (simp add: le_floor_iff)
  moreover have "\<lfloor>x\<rfloor> \<le> R" using round_ties_even_bounds [of x] by (simp add: R_def)
  ultimately have lo: "2 ^ 52 \<le> R" by (rule order_trans)
  have "x \<le> (2::rat) ^ 53" using assms by (simp add: x_def)
  then have "\<lceil>x\<rceil> \<le> (2::int) ^ 53" by (simp add: ceiling_le_iff)
  moreover have "R \<le> \<lceil>x\<rceil>" using round_ties_even_bounds [of x] by (simp add: R_def)
  ultimately have hi: "R \<le> 2 ^ 53" by (rule order_trans [rotated])
  have eq: "double_one_plus r * 65536 = of_int R / 2 ^ 36"
    by (simp add: double_one_plus_def R_def x_def)
  have "(65536::rat) \<le> of_int R / 2 ^ 36"
    using lo by (simp add: le_divide_eq)
  moreover have "of_int R / 2 ^ 36 \<le> (131072::rat)"
    using hi by (simp add: divide_le_eq)
  ultimately show ?thesis
    unfolding eq by (simp add: le_floor_iff floor_le_iff)
qed

lemma s4_draw: "s4 g = (group_of_draw (g 0), \<lambda>i. g (Suc i))"
  by (simp add: s4_def group_of_draw_def Math_random_def)

lemma generateSecret_draws:
  "generateSecret g =
     (group_of_draw (g 0) @ group_of_draw (g 1) @ group_of_draw (g 2) @ group_of_draw (g 3),
      \<lambda>i. g (i + 4))"
  by (simp add: generateSecret_def s4_draw numeral_eq_Suc)

lemma group_of_draw_hex:
  assumes "0 \<le> r" and "r < 1"
  shows "length (group_of_draw r) = 4 \<and> list_all isHexDigit (group_of_draw r)"
proof -
  define z where "z = \<lfloor>double_one_plus r * 65536\<rfloor>"
  have bounds: "65536 \<le> z" "z \<le> 131072"
    using s4_floor_bounds [OF assms] unfolding z_def by blast+
  then have n: "16 ^ 4 \<le> nat z" "nat z < 16 ^ Suc 4"
    by simp_all
  have "group_of_draw r = drop 1 (toString_radix 16 z)"
    by (simp add: group_of_draw_def s4_def Math_random_def z_def)
  also have "\<dots> = drop 1 (radix_digits 16 (nat z))"
    using bounds by (simp add: toString_radix_def)
  finally have group: "group_of_draw r = drop 1 (radix_digits 16 (nat z))" .
  have "length (radix_digits 16 (nat z)) = Suc 4"
    using n by (intro radix_digits_length) simp_all
  moreover have "list_all isHexDigit (radix_digits 16 (nat z))"
    by (rule radix_digits_hex)
  ultimately show ?thesis
    unfolding group by (simp add: list_all_iff) (meson in_set_dropD)
qed

lemma generateSecret_isSecret:
  assumes "\<forall>i<4. 0 \<le> g i \<and> g i < 1"
  shows "isSecret (fst (generateSecret g))"
proof -
  have "0 \<le> g 0 \<and> g 0 < 1" "0 \<le> g 1 \<and> g 1 < 1" "0 \<le> g 2 \<and> g 2 < 1" "0 \<le> g 3 \<and> g 3 < 1"
    using assms by simp_all
  then show ?thesis
    using group_of_draw_hex [of "g 0"] group_of_draw_hex [of "g 1"]
          group_of_draw_hex [of "g 2"] group_of_draw_hex [of "g 3"]
    by (simp add: generateSecret_draws isSecret_def)
qed

subsection \<open>The builders\<close>

lemmas path_simps = get_path_def own_property_def getLabels_def getAnnotations_def

lemma makeBuildConfig_Inr_iff:
  "(\<exists>bc g'. makeBuildConfig config g = Inr (bc, g')) \<longleftrightarrow> metadata_present config"
  by (auto simp: makeBuildConfig_def metadata_present_def member_def Let_def split: prod.splits)

lemma makeBuildConfig_Inl:
  "\<not> metadata_present config \<Longrightarrow> makeBuildConfig config g = Inl TypeError"
  by (auto simp: makeBuildConfig_def metadata_present_def member_def Let_def split: prod.splits)

lemma makeBuildConfig_kind:
  "makeBuildConfig config g = Inr (bc, g') \<Longrightarrow> kind_of bc = JStr ''BuildConfig''"
  by (auto simp: makeBuildConfig_def member_def Let_def kind_of_def path_simps
      split: prod.splits if_splits)

lemma makeBuildConfig_labels:
  "makeBuildConfig config g = Inr (bc, g') \<Longrightarrow>
   label_app bc = JStr (name config) \<and> annotation_generated_by bc = JStr ''OpenShiftWebConsole''"
  by (auto simp: makeBuildConfig_def member_def Let_def label_app_def annotation_generated_by_def
      path_simps split: prod.splits if_splits)

lemma makeBuildConfig_secrets:
  assumes "makeBuildConfig config g = Inr (bc, g')"
  shows "get_path bc generic_secret_path = JStr (fst (generateSecret g))"
    and "get_path bc github_secret_path = JStr (fst (generateSecret (snd (generateSecret g))))"
    and "g' = snd (generateSecret (snd (generateSecret g)))"
  using assms
  by (auto simp: makeBuildConfig_def member_def Let_def generic_secret_path_def github_secret_path_def
        get_path_def own_property_def split: prod.splits if_splits)

lemma makeBuildConfig_masked:
  assumes "makeBuildConfig config g1 = Inr (bc1, g1')" and "makeBuildConfig config g2 = Inr (bc2, g2')"
  shows "mask_secrets bc1 = mask_secrets bc2"
  using assms
  by (auto simp: makeBuildConfig_def member_def Let_def generic_secret_path_def github_secret_path_def
        mask_secrets_def split: prod.splits if_splits)

lemma makeBuildConfig_git:
  assumes "makeBuildConfig config g = Inr (bc, g')"
  shows "git_ref bc = (case gitRef config of None \<Rightarrow> JStr ''master''
                      | Some r \<Rightarrow> if r = [] then JStr ''master'' else JStr r)"
    and "git_uri bc = JStr (repository config)"
  using assms
  by (auto simp: makeBuildConfig_def member_def Let_def git_ref_def git_uri_def optional_string_def
        get_path_def own_property_def split: prod.splits if_splits option.splits)

lemma makeBuildConfig_source:
  assumes "makeBuildConfig config g = Inr (bc, g')"
  shows "map fst (properties (source_of bc)) =
           (if contextDir config = None \<or> contextDir config = Some [] then [''git'', ''type'']
            else [''git'', ''type'', ''contextDir''])"
    and "get_path (source_of bc) [Key ''contextDir''] =
           (case contextDir config of None \<Rightarrow> JUndefined
            | Some d \<Rightarrow> if d = [] then JUndefined else JStr d)"
  using assms
  by (auto simp: makeBuildConfig_def member_def Let_def source_of_def optional_string_def
        get_path_def own_property_def split: prod.splits if_splits option.splits)

lemma has_key_properties: "has_key ob k \<longleftrightarrow> k \<in> set (map fst (properties ob))"
  by (cases ob) simp_all

lemma other_kinds:
  "kind_of (makeImageStream config) = JStr ''ImageStream''"
  "kind_of (makeDeploymentConfig config ports) = JStr ''DeploymentConfig''"
  "kind_of (makeService config p) = JStr ''Service''"
  "kind_of (makeRoute config p) = JStr ''Route''"
  by (simp_all add: kind_of_def makeImageStream_def makeDeploymentConfig_def makeService_def
        makeRoute_def path_simps)

lemma other_labels:
  "label_app (makeImageStream config) = JStr (name config)"
  "label_app (makeDeploymentConfig config ports) = JStr (name config)"
  "label_app (makeService config p) = JStr (name config)"
  "label_app (makeRoute config p) = JStr (name config)"
  "annotation_generated_by (makeImageStream config) = JStr ''OpenShiftWebConsole''"
  "annotation_generated_by (makeDeploymentConfig config ports) = JStr ''OpenShiftWebConsole''"
  "annotation_generated_by (makeService config p) = JStr ''OpenShiftWebConsole''"
  "annotation_generated_by (makeRoute config p) = JStr ''OpenShiftWebConsole''"
  by (simp_all add: label_app_def annotation_generated_by_def makeImageStream_def
        makeDeploymentConfig_def makeService_def makeRoute_def path_simps)

lemma makeAPIObjects_cases:
  assumes "getPorts this (imageStreamTag config) = Inr (ports, warnings)"
    and "makeBuildConfig config g = Inr (bc, g')"
  shows "makeAPIObjects this config g =
     Inr ([makeImageStream config, bc, makeDeploymentConfig config ports] @
          (case ports of [] \<Rightarrow> [] | p # _ \<Rightarrow> [makeService config p, makeRoute config p]),
          warnings, g')"
  using assms by (simp add: makeAPIObjects_def lodash_head_def split: list.splits)

lemma makeAPIObjects_Inr:
  assumes "makeAPIObjects this config g = Inr (objects, warnings, g')"
  obtains ports bc where "getPorts this (imageStreamTag config) = Inr (ports, warnings)"
    and "makeBuildConfig config g = Inr (bc, g')"
    and "objects = [makeImageStream config, bc, makeDeploymentConfig config ports] @
          (case ports of [] \<Rightarrow> [] | p # _ \<Rightarrow> [makeService config p, makeRoute config p])"
  using assms
  by (auto simp: makeAPIObjects_def lodash_head_def Let_def split: sum.splits prod.splits list.splits)

subsection \<open>The example inputs\<close>

lemmas parse_eval =
  spec_port_def spec_protocol_def parseInt_def isWhiteSpace_def isDigit_def digitValue_def
  mathInt_def to_double_def nearest_double_def toUpperCase_def toUpperChar_def

lemmas name_eval =
  getPortName_def number_toString_def positive_toString_def radix_digits.simps digitChar_def
  toLowerCase_def toLowerChar_def

lemma example_tags:
  "\<not> nullish (node_tag m)"
  "js_prop (node_tag m) ''image'' = JObj [(''dockerImageMetadata'', JObj m)]"
  "no_dotted_key (JObj [(''dockerImageMetadata'', JObj m)])"
  "\<not> nullish (js_prop (node_tag m) ''metadata'')"
  by (simp_all add: node_tag_def nullish_def own_property_def no_dotted_key_def)

lemma example_metadata:
  "metadata_present example_config"
  "metadata_present example_config_no_ports"
  "metadata_present example_config_branch"
  by (simp_all add: metadata_present_def example_config_def example_config_no_ports_def
        example_config_branch_def example_tags)

lemma getPorts_node_tag:
  "getPorts this (node_tag m) =
     parsePortsFromSpec this (spec_portSpec (JObj [(''dockerImageMetadata'', JObj m)]))"
  using getPorts_spec [of "node_tag m" this] by (simp add: example_tags)

lemma example_ports:
  "getPorts this (imageStreamTag example_config) =
     Inr ([\<lparr>containerPort = Finite 8080, protocol = ''TCP''\<rparr>], [])"
  "getPorts this (imageStreamTag example_config_no_ports) = Inr ([], [])"
  "getPorts this (imageStreamTag example_config_branch) =
     Inr ([\<lparr>containerPort = Finite 9000, protocol = ''TCP''\<rparr>,
           \<lparr>containerPort = Finite 8443, protocol = ''TCP''\<rparr>,
           \<lparr>containerPort = Finite 53, protocol = ''UDP''\<rparr>], [])"
  by (simp_all add: example_config_def example_config_no_ports_def example_config_branch_def
        getPorts_node_tag spec_portSpec_def config_ports_def container_config_ports_def
        get_path_def own_property_def parsePortsFromSpec_empty
        parsePortsFromSpec_mapping isArrayLike_def nullish_def List.map_filter_simps parse_eval)

lemma example_key_order:
  "own_key_order [''8080/tcp'']"
  "own_key_order [''9000'', ''8443/tcp'', ''53/udp'']"
  by (simp_all add: own_key_order_def isArrayIndex_def isDigit_def digitValue_def)

section \<open>The properties\<close>

subsection \<open>Parsing the exposed ports\<close>

text \<open>
  Claim C2. A key whose first segment is no number is to be skipped with one warning, no
  exception raised and the remaining keys still parsed. The code does not do that: the
  \<open>this\<close> of the iteratee is \<open>undefined\<close>, so \<open>this.Logger.warn\<close> throws a TypeError at the
  first such key, for \<open>{"abc/tcp": {}}\<close> and also when a valid key follows. The same
  happens in sloppy code without a global \<open>Logger\<close>. Only where a global \<open>Logger.warn\<close>
  exists does the call log the warning and go on.
\<close>

theorem unparseable_key_throws:
  "parsePortsFromSpec This_undefined (JObj [(''abc/tcp'', JObj [])]) = Inl TypeError
   \<and> parsePortsFromSpec This_undefined (JObj [(''abc/tcp'', JObj []), (''8080/tcp'', JObj [])])
       = Inl TypeError
   \<and> parsePortsFromSpec (This_global False) (JObj [(''abc/tcp'', JObj [])]) = Inl TypeError
   \<and> parsePortsFromSpec (This_global True) (JObj [(''abc/tcp'', JObj []), (''8080/tcp'', JObj [])])
       = Inr ([\<lparr>containerPort = Finite 8080, protocol = ''TCP''\<rparr>], [''Container port abc is not a number''])"
  by (simp add: parsePortsFromSpec_mapping isArrayLike_def nullish_def own_property_def
        warn_callable_def List.map_filter_simps spec_warning_def parse_eval)

text \<open>
  Claim C3. For an exposed-ports mapping (an object that lodash does not take for an
  array) every key is cut at the slashes, a key of one segment has protocol \<open>tcp\<close>, and
  every key whose first segment parses gives the port of that number with the second
  segment in upper case; the ports come in the order of the keys. The call returns them
  whenever every key parses or a logger can be reached; \<open>{"8080/tcp": {}}\<close> and
  \<open>{"8080": {}}\<close> both give port 8080 with protocol \<open>TCP\<close>.
\<close>

theorem parsePortsFromSpec_keys:
  assumes "\<not> isArrayLike (JObj kvs)"
    and "(\<forall>k \<in> set (map fst kvs). spec_port k \<noteq> None) \<or> warn_callable this"
  shows "parsePortsFromSpec this (JObj kvs) =
           Inr (List.map_filter spec_port (map fst kvs),
                map spec_warning (filter (\<lambda>k. spec_port k = None) (map fst kvs)))
       \<and> parsePortsFromSpec this (JObj [(''8080/tcp'', JObj [])]) =
           Inr ([\<lparr>containerPort = Finite 8080, protocol = ''TCP''\<rparr>], [])
       \<and> parsePortsFromSpec this (JObj [(''8080'', JObj [])]) =
           Inr ([\<lparr>containerPort = Finite 8080, protocol = ''TCP''\<rparr>], [])"
proof -
  have "parsePortsFromSpec this (JObj [(''8080/tcp'', JObj [])]) =
          Inr ([\<lparr>containerPort = Finite 8080, protocol = ''TCP''\<rparr>], [])"
    by (simp add: parsePortsFromSpec_mapping single_key_not_arrayLike List.map_filter_simps parse_eval)
  moreover have "parsePortsFromSpec this (JObj [(''8080'', JObj [])]) =
          Inr ([\<lparr>containerPort = Finite 8080, protocol = ''TCP''\<rparr>], [])"
    by (simp add: parsePortsFromSpec_mapping single_key_not_arrayLike List.map_filter_simps parse_eval)
  ultimately show ?thesis
    using assms(2) by (simp add: parsePortsFromSpec_mapping [OF assms(1)])
qed

theorem parsePortsFromSpec_keys_witness:
  "own_key_order (map fst [(''9000'', JObj []), (''8443/tcp'', JObj []), (''53/udp'', JObj [])])
   \<and> \<not> isArrayLike (JObj [(''9000'', JObj []), (''8443/tcp'', JObj []), (''53/udp'', JObj [])])
   \<and> list_all (\<lambda>k. spec_port k \<noteq> None)
        (map fst [(''9000'', JObj []), (''8443/tcp'', JObj []), (''53/udp'', JObj [])])
   \<and> parsePortsFromSpec This_undefined
        (JObj [(''9000'', JObj []), (''8443/tcp'', JObj []), (''53/udp'', JObj [])]) =
       Inr ([\<lparr>containerPort = Finite 9000, protocol = ''TCP''\<rparr>,
             \<lparr>containerPort = Finite 8443, protocol = ''TCP''\<rparr>,
             \<lparr>containerPort = Finite 53, protocol = ''UDP''\<rparr>], [])"
proof -
  let ?kvs = "[(''9000'', JObj []), (''8443/tcp'', JObj []), (''53/udp'', JObj [])]"
  have order: "own_key_order (map fst ?kvs)"
    using example_key_order(2) by simp
  have plain: "\<not> isArrayLike (JObj ?kvs)"
    by (simp add: isArrayLike_def nullish_def own_property_def)
  have parsed: "(\<forall>k \<in> set (map fst ?kvs). spec_port k \<noteq> None) \<or> warn_callable This_undefined"
    by (simp add: parse_eval)
  from parsePortsFromSpec_keys [OF plain parsed] order plain parsed show ?thesis
    by (simp add: List.map_filter_simps warn_callable_def parse_eval)
qed




subsection \<open>Reading the port metadata\<close>

text \<open>
  Claim C6. For an imageStreamTag (a value that is there, whose image has no property
  named by a whole dotted path) \<open>getPorts\<close> parses the value at
  \<open>image.dockerImageMetadata.Config.ExposedPorts\<close>; when that is absent or falsy, the
  value at \<open>image.dockerImageMetadata.ContainerConfig.ExposedPorts\<close>; when that is absent
  too, an empty mapping. So a tag without port metadata gives no ports and no error.
\<close>

theorem getPorts_fallback:
  assumes "\<not> nullish ist" and "no_dotted_key (js_prop ist ''image'')"
  shows "getPorts this ist = parsePortsFromSpec this (spec_portSpec (js_prop ist ''image''))
       \<and> (\<not> truthy (config_ports (js_prop ist ''image'')) \<and>
          nullish (container_config_ports (js_prop ist ''image''))
          \<longrightarrow> getPorts this ist = Inr ([], []))"
proof -
  have spec: "getPorts this ist = parsePortsFromSpec this (spec_portSpec (js_prop ist ''image''))"
    using assms by (rule getPorts_spec)
  have "getPorts this ist = Inr ([], [])"
    if "\<not> truthy (config_ports (js_prop ist ''image''))"
      and "nullish (container_config_ports (js_prop ist ''image''))"
    using that by (auto simp: spec spec_portSpec_def nullish_def parsePortsFromSpec_empty)
  with spec show ?thesis by blast
qed

theorem getPorts_fallback_witness:
  "\<not> nullish (imageStreamTag example_config_branch)
   \<and> no_dotted_key (js_prop (imageStreamTag example_config_branch) ''image'')
   \<and> config_ports (js_prop (imageStreamTag example_config_branch) ''image'') = JUndefined
   \<and> container_config_ports (js_prop (imageStreamTag example_config_branch) ''image'') =
       JObj [(''9000'', JObj []), (''8443/tcp'', JObj []), (''53/udp'', JObj [])]
   \<and> own_key_order [''9000'', ''8443/tcp'', ''53/udp'']
   \<and> getPorts This_undefined (imageStreamTag example_config_branch) =
       Inr ([\<lparr>containerPort = Finite 9000, protocol = ''TCP''\<rparr>,
             \<lparr>containerPort = Finite 8443, protocol = ''TCP''\<rparr>,
             \<lparr>containerPort = Finite 53, protocol = ''UDP''\<rparr>], [])
   \<and> \<not> nullish (imageStreamTag example_config)
   \<and> no_dotted_key (js_prop (imageStreamTag example_config) ''image'')
   \<and> config_ports (js_prop (imageStreamTag example_config) ''image'') = JObj [(''8080/tcp'', JObj [])]
   \<and> getPorts This_undefined (imageStreamTag example_config) =
       Inr ([\<lparr>containerPort = Finite 8080, protocol = ''TCP''\<rparr>], [])
   \<and> \<not> nullish (JObj []) \<and> no_dotted_key (js_prop (JObj []) ''image'')
   \<and> \<not> truthy (config_ports (js_prop (JObj []) ''image''))
   \<and> nullish (container_config_ports (js_prop (JObj []) ''image''))
   \<and> getPorts This_undefined (JObj []) = Inr ([], [])"
proof -
  let ?tag = "imageStreamTag example_config_branch"
  let ?tag' = "imageStreamTag example_config"
  have tag: "\<not> nullish ?tag" "no_dotted_key (js_prop ?tag ''image'')"
    by (simp_all add: example_config_branch_def example_tags)
  have tag': "\<not> nullish ?tag'" "no_dotted_key (js_prop ?tag' ''image'')"
    by (simp_all add: example_config_def example_tags)
  have absent: "config_ports (js_prop ?tag ''image'') = JUndefined"
    by (simp add: example_config_branch_def example_tags config_ports_def get_path_def own_property_def)
  have fallback: "container_config_ports (js_prop ?tag ''image'') =
      JObj [(''9000'', JObj []), (''8443/tcp'', JObj []), (''53/udp'', JObj [])]"
    by (simp add: example_config_branch_def example_tags container_config_ports_def get_path_def
          own_property_def)
  have present: "config_ports (js_prop ?tag' ''image'') = JObj [(''8080/tcp'', JObj [])]"
    by (simp add: example_config_def example_tags config_ports_def get_path_def own_property_def)
  have "spec_portSpec (js_prop ?tag ''image'') =
      JObj [(''9000'', JObj []), (''8443/tcp'', JObj []), (''53/udp'', JObj [])]"
    by (simp add: spec_portSpec_def absent fallback)
  with getPorts_fallback [OF tag, of This_undefined]
  have ports: "getPorts This_undefined ?tag =
       Inr ([\<lparr>containerPort = Finite 9000, protocol = ''TCP''\<rparr>,
             \<lparr>containerPort = Finite 8443, protocol = ''TCP''\<rparr>,
             \<lparr>containerPort = Finite 53, protocol = ''UDP''\<rparr>], [])"
    by (simp add: parsePortsFromSpec_mapping isArrayLike_def nullish_def own_property_def
          List.map_filter_simps parse_eval)
  have "spec_portSpec (js_prop ?tag' ''image'') = JObj [(''8080/tcp'', JObj [])]"
    by (simp add: spec_portSpec_def present)
  with getPorts_fallback [OF tag', of This_undefined]
  have ports': "getPorts This_undefined ?tag' =
       Inr ([\<lparr>containerPort = Finite 8080, protocol = ''TCP''\<rparr>], [])"
    by (simp add: parsePortsFromSpec_mapping isArrayLike_def nullish_def own_property_def
          List.map_filter_simps parse_eval)
  have empty: "\<not> nullish (JObj [])" "no_dotted_key (js_prop (JObj []) ''image'')"
    by (simp_all add: nullish_def no_dotted_key_def own_property_def)
  have none: "\<not> truthy (config_ports (js_prop (JObj []) ''image''))"
      "nullish (container_config_ports (js_prop (JObj []) ''image''))"
    by (simp_all add: config_ports_def container_config_ports_def get_path_def own_property_def
          nullish_def)
  from getPorts_fallback [OF empty, of This_undefined] none
  have "getPorts This_undefined (JObj []) = Inr ([], [])"
    by blast
  with tag tag' absent fallback present ports ports' empty none example_key_order(2) show ?thesis
    by simp
qed

subsection \<open>The objects returned\<close>

text \<open>
  Claim C1. For a config whose tag carries its \<open>metadata\<close>: when the ports parsed from
  the tag are none, \<open>makeAPIObjects\<close> returns exactly the ImageStream, the BuildConfig and
  the DeploymentConfig, in this order; when there is a port, it returns these three and
  then the Service and the Route, both built from the first port parsed: the single
  port entry of the Service has the number, the protocol and the name of that port, and
  the Route targets the name of that port. The DeploymentConfig holds all the ports.
\<close>

theorem makeAPIObjects_kinds:
  assumes "metadata_present config"
  shows "(getPorts this (imageStreamTag config) = Inr ([], warnings) \<longrightarrow>
           (\<exists>bc g'. makeAPIObjects this config g =
                       Inr ([makeImageStream config, bc, makeDeploymentConfig config []], warnings, g') \<and>
                     makeBuildConfig config g = Inr (bc, g') \<and>
                     map kind_of [makeImageStream config, bc, makeDeploymentConfig config []] =
                       [JStr ''ImageStream'', JStr ''BuildConfig'', JStr ''DeploymentConfig''] \<and>
                     container_ports (makeDeploymentConfig config []) = JArr []))
       \<and> (getPorts this (imageStreamTag config) = Inr (p # ps, warnings) \<longrightarrow>
           (\<exists>bc g'. makeAPIObjects this config g =
                       Inr ([makeImageStream config, bc, makeDeploymentConfig config (p # ps),
                             makeService config p, makeRoute config p], warnings, g') \<and>
                     makeBuildConfig config g = Inr (bc, g') \<and>
                     map kind_of [makeImageStream config, bc, makeDeploymentConfig config (p # ps),
                                  makeService config p, makeRoute config p] =
                       [JStr ''ImageStream'', JStr ''BuildConfig'', JStr ''DeploymentConfig'',
                        JStr ''Service'', JStr ''Route''] \<and>
                     container_ports (makeDeploymentConfig config (p # ps)) =
                       JArr (map port_object (p # ps)) \<and>
                     service_ports (makeService config p) =
                       JArr [JObj [(''port'', JNum (containerPort p)),
                                   (''targetPort'', JNum (containerPort p)),
                                   (''protocol'', JStr (protocol p)),
                                   (''name'', JStr (getPortName p))]] \<and>
                     route_targetPort (makeRoute config p) = JStr (getPortName p)))"
proof -
  obtain bc g' where bc: "makeBuildConfig config g = Inr (bc, g')"
    using assms makeBuildConfig_Inr_iff by blast
  have dc: "container_ports (makeDeploymentConfig config qs) = JArr (map port_object qs)" for qs
    by (simp add: container_ports_def makeDeploymentConfig_def get_path_def own_property_def)
  have service: "service_ports (makeService config p) =
      JArr [JObj [(''port'', JNum (containerPort p)), (''targetPort'', JNum (containerPort p)),
                  (''protocol'', JStr (protocol p)), (''name'', JStr (getPortName p))]]"
    by (simp add: service_ports_def makeService_def get_path_def own_property_def)
  have route: "route_targetPort (makeRoute config p) = JStr (getPortName p)"
    by (simp add: route_targetPort_def makeRoute_def get_path_def own_property_def)
  show ?thesis
    using bc makeBuildConfig_kind [OF bc] service route
    by (auto simp: makeAPIObjects_def lodash_head_def other_kinds dc)
qed

theorem makeAPIObjects_kinds_witness:
  "metadata_present example_config_no_ports
   \<and> getPorts This_undefined (imageStreamTag example_config_no_ports) = Inr ([], [])
   \<and> (\<exists>objects g'. makeAPIObjects This_undefined example_config_no_ports (\<lambda>_. 0) = Inr (objects, [], g') \<and>
          map kind_of objects = [JStr ''ImageStream'', JStr ''BuildConfig'', JStr ''DeploymentConfig''])
   \<and> metadata_present example_config_branch
   \<and> own_key_order [''9000'', ''8443/tcp'', ''53/udp'']
   \<and> getPorts This_undefined (imageStreamTag example_config_branch) =
       Inr ([\<lparr>containerPort = Finite 9000, protocol = ''TCP''\<rparr>,
             \<lparr>containerPort = Finite 8443, protocol = ''TCP''\<rparr>,
             \<lparr>containerPort = Finite 53, protocol = ''UDP''\<rparr>], [])
   \<and> (\<exists>objects g'. makeAPIObjects This_undefined example_config_branch (\<lambda>_. 0) = Inr (objects, [], g') \<and>
          map kind_of objects = [JStr ''ImageStream'', JStr ''BuildConfig'', JStr ''DeploymentConfig'',
                                 JStr ''Service'', JStr ''Route''] \<and>
          container_ports (objects ! 2) =
            JArr [JObj [(''containerPort'', JNum (Finite 9000)), (''protocol'', JStr ''TCP'')],
                  JObj [(''containerPort'', JNum (Finite 8443)), (''protocol'', JStr ''TCP'')],
                  JObj [(''containerPort'', JNum (Finite 53)), (''protocol'', JStr ''UDP'')]] \<and>
          service_ports (objects ! 3) =
            JArr [JObj [(''port'', JNum (Finite 9000)), (''targetPort'', JNum (Finite 9000)),
                        (''protocol'', JStr ''TCP''), (''name'', JStr ''9000-tcp'')]] \<and>
          route_targetPort (objects ! 4) = JStr ''9000-tcp'')"
proof -
  let ?p = "\<lparr>containerPort = Finite 9000, protocol = ''TCP''\<rparr>"
  let ?ps = "[\<lparr>containerPort = Finite 8443, protocol = ''TCP''\<rparr>,
              \<lparr>containerPort = Finite 53, protocol = ''UDP''\<rparr>]"
  note three = makeAPIObjects_kinds [OF example_metadata(2), of This_undefined "[]" "\<lambda>_. 0" ?p ?ps]
  note five = makeAPIObjects_kinds [OF example_metadata(3), of This_undefined "[]" "\<lambda>_. 0" ?p ?ps]
  have port_name: "getPortName ?p = ''9000-tcp''"
    by (simp add: name_eval)
  from three [THEN conjunct1, THEN mp, OF example_ports(2)]
  obtain bc3 g3 where
      "makeAPIObjects This_undefined example_config_no_ports (\<lambda>_. 0) =
         Inr ([makeImageStream example_config_no_ports, bc3,
               makeDeploymentConfig example_config_no_ports []], [], g3)"
      "map kind_of [makeImageStream example_config_no_ports, bc3,
                    makeDeploymentConfig example_config_no_ports []] =
         [JStr ''ImageStream'', JStr ''BuildConfig'', JStr ''DeploymentConfig'']"
    by (elim exE conjE)
  then have a: "\<exists>objects g'. makeAPIObjects This_undefined example_config_no_ports (\<lambda>_. 0) =
        Inr (objects, [], g') \<and>
      map kind_of objects = [JStr ''ImageStream'', JStr ''BuildConfig'', JStr ''DeploymentConfig'']"
    by (intro exI [of _ "[makeImageStream example_config_no_ports, bc3,
               makeDeploymentConfig example_config_no_ports []]"] exI [of _ g3]) simp
  from five [THEN conjunct2, THEN mp, OF example_ports(3)]
  obtain bc5 g5 where run:
      "makeAPIObjects This_undefined example_config_branch (\<lambda>_. 0) =
         Inr ([makeImageStream example_config_branch, bc5,
               makeDeploymentConfig example_config_branch (?p # ?ps),
               makeService example_config_branch ?p, makeRoute example_config_branch ?p], [], g5)"
    and kinds:
      "map kind_of [makeImageStream example_config_branch, bc5,
                    makeDeploymentConfig example_config_branch (?p # ?ps),
                    makeService example_config_branch ?p, makeRoute example_config_branch ?p] =
         [JStr ''ImageStream'', JStr ''BuildConfig'', JStr ''DeploymentConfig'',
          JStr ''Service'', JStr ''Route'']"
    and dc: "container_ports (makeDeploymentConfig example_config_branch (?p # ?ps)) =
         JArr (map port_object (?p # ?ps))"
    and service: "service_ports (makeService example_config_branch ?p) =
         JArr [JObj [(''port'', JNum (containerPort ?p)), (''targetPort'', JNum (containerPort ?p)),
                     (''protocol'', JStr (protocol ?p)), (''name'', JStr (getPortName ?p))]]"
    and route: "route_targetPort (makeRoute example_config_branch ?p) = JStr (getPortName ?p)"
    by (elim exE conjE)
  have b: "\<exists>objects g'. makeAPIObjects This_undefined example_config_branch (\<lambda>_. 0) =
        Inr (objects, [], g') \<and>
      map kind_of objects = [JStr ''ImageStream'', JStr ''BuildConfig'', JStr ''DeploymentConfig'',
                             JStr ''Service'', JStr ''Route''] \<and>
      container_ports (objects ! 2) =
        JArr [JObj [(''containerPort'', JNum (Finite 9000)), (''protocol'', JStr ''TCP'')],
              JObj [(''containerPort'', JNum (Finite 8443)), (''protocol'', JStr ''TCP'')],
              JObj [(''containerPort'', JNum (Finite 53)), (''protocol'', JStr ''UDP'')]] \<and>
      service_ports (objects ! 3) =
        JArr [JObj [(''port'', JNum (Finite 9000)), (''targetPort'', JNum (Finite 9000)),
                    (''protocol'', JStr ''TCP''), (''name'', JStr ''9000-tcp'')]] \<and>
      route_targetPort (objects ! 4) = JStr ''9000-tcp''"
    using run kinds dc service route unfolding port_name
    by (intro exI [of _ "[makeImageStream example_config_branch, bc5,
               makeDeploymentConfig example_config_branch (?p # ?ps),
               makeService example_config_branch ?p, makeRoute example_config_branch ?p]"]
          exI [of _ g5]) (simp add: port_object_def)
  from a b show ?thesis
    using example_metadata example_ports example_key_order(2) by simp
qed

text \<open>
  Claim C4. Every object that \<open>makeAPIObjects\<close> returns, three or five of them, has
  \<open>metadata.labels.app\<close> equal to the name of the config and
  \<open>metadata.annotations["openshift.io/generated-by"]\<close> equal to \<open>OpenShiftWebConsole\<close>.
\<close>

theorem makeAPIObjects_labels:
  assumes "makeAPIObjects this config g = Inr (objects, warnings, g')"
  shows "(length objects = 3 \<or> length objects = 5) \<and>
         (\<forall>ob \<in> set objects. label_app ob = JStr (name config) \<and>
                              annotation_generated_by ob = JStr ''OpenShiftWebConsole'')"
proof -
  from assms obtain ports bc where
      bc: "makeBuildConfig config g = Inr (bc, g')"
    and objects: "objects = [makeImageStream config, bc, makeDeploymentConfig config ports] @
          (case ports of [] \<Rightarrow> [] | p # _ \<Rightarrow> [makeService config p, makeRoute config p])"
    by (rule makeAPIObjects_Inr)
  show ?thesis
    using makeBuildConfig_labels [OF bc]
    by (cases ports) (simp_all add: objects other_labels)
qed

theorem makeAPIObjects_labels_witness:
  "\<exists>objects warnings g'.
     makeAPIObjects This_undefined example_config (\<lambda>_. 0) = Inr (objects, warnings, g') \<and>
     length objects = 5 \<and>
     list_all (\<lambda>ob. label_app ob = JStr ''myapp'' \<and>
                     annotation_generated_by ob = JStr ''OpenShiftWebConsole'') objects"
proof -
  obtain bc g' where "makeBuildConfig example_config (\<lambda>_. 0) = Inr (bc, g')"
    using example_metadata(1) makeBuildConfig_Inr_iff by blast
  with example_ports(1) [of This_undefined]
  obtain objects where run: "makeAPIObjects This_undefined example_config (\<lambda>_. 0) = Inr (objects, [], g')"
    and five: "length objects = 5"
    by (simp add: makeAPIObjects_cases)
  from makeAPIObjects_labels [OF run]
  have "list_all (\<lambda>ob. label_app ob = JStr ''myapp'' \<and>
                       annotation_generated_by ob = JStr ''OpenShiftWebConsole'') objects"
    by (simp add: list_all_iff example_config_def)
  with run five show ?thesis by blast
qed

text \<open>
  Claim C5. The name of a port is its number, a hyphen and its protocol, in lower case:
  \<open>8080-tcp\<close> for port 8080 with protocol \<open>TCP\<close>. When the tag has a port, the name of
  the first one is both the name of the single port entry of the Service and the
  \<open>spec.port.targetPort\<close> of the Route.
\<close>

theorem service_route_port_name:
  assumes "getPorts this (imageStreamTag config) = Inr (p # ps, warnings)"
    and "makeAPIObjects this config g = Inr (objects, warnings', g')"
  shows "getPortName p = toLowerCase (number_toString (containerPort p) @ ''-'' @ protocol p)
       \<and> getPortName \<lparr>containerPort = Finite 8080, protocol = ''TCP''\<rparr> = ''8080-tcp''
       \<and> length objects = 5
       \<and> kind_of (objects ! 3) = JStr ''Service''
       \<and> service_ports (objects ! 3) =
           JArr [JObj [(''port'', JNum (containerPort p)), (''targetPort'', JNum (containerPort p)),
                       (''protocol'', JStr (protocol p)), (''name'', JStr (getPortName p))]]
       \<and> kind_of (objects ! 4) = JStr ''Route''
       \<and> route_targetPort (objects ! 4) = JStr (getPortName p)"
proof -
  from assms(2) obtain ports bc where
      "getPorts this (imageStreamTag config) = Inr (ports, warnings')"
    and objects: "objects = [makeImageStream config, bc, makeDeploymentConfig config ports] @
          (case ports of [] \<Rightarrow> [] | p # _ \<Rightarrow> [makeService config p, makeRoute config p])"
    by (rule makeAPIObjects_Inr)
  with assms(1) have ports: "ports = p # ps" by simp
  have example: "getPortName \<lparr>containerPort = Finite 8080, protocol = ''TCP''\<rparr> = ''8080-tcp''"
    by (simp add: name_eval)
  have service: "service_ports (makeService config p) =
           JArr [JObj [(''port'', JNum (containerPort p)), (''targetPort'', JNum (containerPort p)),
                       (''protocol'', JStr (protocol p)), (''name'', JStr (getPortName p))]]"
    by (simp add: service_ports_def makeService_def get_path_def own_property_def)
  have route: "route_targetPort (makeRoute config p) = JStr (getPortName p)"
    by (simp add: route_targetPort_def makeRoute_def get_path_def own_property_def)
  show ?thesis
    using example service route
    by (simp add: objects ports other_kinds) (simp add: getPortName_def)
qed

theorem service_route_port_name_witness:
  "\<exists>objects warnings g'.
     getPorts This_undefined (imageStreamTag example_config) =
       Inr ([\<lparr>containerPort = Finite 8080, protocol = ''TCP''\<rparr>], []) \<and>
     makeAPIObjects This_undefined example_config (\<lambda>_. 0) = Inr (objects, warnings, g') \<and>
     service_ports (objects ! 3) =
       JArr [JObj [(''port'', JNum (Finite 8080)), (''targetPort'', JNum (Finite 8080)),
                   (''protocol'', JStr ''TCP''), (''name'', JStr ''8080-tcp'')]] \<and>
     route_targetPort (objects ! 4) = JStr ''8080-tcp''"
proof -
  obtain bc g' where "makeBuildConfig example_config (\<lambda>_. 0) = Inr (bc, g')"
    using example_metadata(1) makeBuildConfig_Inr_iff by blast
  with example_ports(1) [of This_undefined]
  obtain objects where run: "makeAPIObjects This_undefined example_config (\<lambda>_. 0) = Inr (objects, [], g')"
    by (simp add: makeAPIObjects_cases)
  let ?p = "\<lparr>containerPort = Finite 8080, protocol = ''TCP''\<rparr>"
  note agree = service_route_port_name [OF example_ports(1) run]
  then have port_name: "getPortName ?p = ''8080-tcp''"
    by blast
  from agree have "service_ports (objects ! 3) =
       JArr [JObj [(''port'', JNum (containerPort ?p)), (''targetPort'', JNum (containerPort ?p)),
                   (''protocol'', JStr (protocol ?p)), (''name'', JStr (getPortName ?p))]]"
      and "route_targetPort (objects ! 4) = JStr (getPortName ?p)"
    by blast+
  then have "service_ports (objects ! 3) =
       JArr [JObj [(''port'', JNum (Finite 8080)), (''targetPort'', JNum (Finite 8080)),
                   (''protocol'', JStr ''TCP''), (''name'', JStr ''8080-tcp'')]] \<and>
     route_targetPort (objects ! 4) = JStr ''8080-tcp''"
    unfolding port_name by simp
  with run example_ports(1) [of This_undefined] show ?thesis by blast
qed

subsection \<open>The BuildConfig\<close>

text \<open>
  Claim C7. Two calls of \<open>makeBuildConfig\<close> on the same config give BuildConfigs that are
  equal in every field but the secret of the Generic trigger and the secret of the GitHub
  trigger. Within one call the two secrets come from two calls of the generator, one
  after the other: the first is made of the first four numbers drawn, the second of the
  next four. Each is four groups of four hexadecimal characters, sixteen in all.
\<close>

theorem makeBuildConfig_secrets_only:
  assumes "makeBuildConfig config g1 = Inr (bc1, g1')"
    and "makeBuildConfig config g2 = Inr (bc2, g2')"
    and "\<forall>i<8. 0 \<le> g1 i \<and> g1 i < 1"
  shows "mask_secrets bc1 = mask_secrets bc2
       \<and> get_path bc1 generic_secret_path =
           JStr (group_of_draw (g1 0) @ group_of_draw (g1 1) @ group_of_draw (g1 2) @ group_of_draw (g1 3))
       \<and> get_path bc1 github_secret_path =
           JStr (group_of_draw (g1 4) @ group_of_draw (g1 5) @ group_of_draw (g1 6) @ group_of_draw (g1 7))
       \<and> g1' = (\<lambda>i. g1 (i + 8))
       \<and> list_all (\<lambda>i. length (group_of_draw (g1 i)) = 4) [0, 1, 2, 3, 4, 5, 6, 7]
       \<and> isSecret (group_of_draw (g1 0) @ group_of_draw (g1 1) @ group_of_draw (g1 2) @ group_of_draw (g1 3))
       \<and> isSecret (group_of_draw (g1 4) @ group_of_draw (g1 5) @ group_of_draw (g1 6) @ group_of_draw (g1 7))"
proof -
  have masked: "mask_secrets bc1 = mask_secrets bc2"
    using assms(1,2) by (rule makeBuildConfig_masked)
  have second: "generateSecret (snd (generateSecret g1)) =
      (group_of_draw (g1 4) @ group_of_draw (g1 5) @ group_of_draw (g1 6) @ group_of_draw (g1 7),
       \<lambda>i. g1 (i + 8))"
    by (simp add: generateSecret_draws add.commute add.left_commute)
  have draws: "\<forall>i<4. 0 \<le> g1 i \<and> g1 i < 1" "\<forall>i<4. 0 \<le> g1 (i + 4) \<and> g1 (i + 4) < 1"
    using assms(3) by simp_all
  have groups: "length (group_of_draw (g1 i)) = 4" if "i < 8" for i
    using that assms(3) group_of_draw_hex [of "g1 i"] by simp
  have "isSecret (fst (generateSecret g1))" "isSecret (fst (generateSecret (\<lambda>i. g1 (i + 4))))"
    using draws by (simp_all add: generateSecret_isSecret)
  then have secrets:
      "isSecret (group_of_draw (g1 0) @ group_of_draw (g1 1) @ group_of_draw (g1 2) @ group_of_draw (g1 3))"
      "isSecret (group_of_draw (g1 4) @ group_of_draw (g1 5) @ group_of_draw (g1 6) @ group_of_draw (g1 7))"
    by (simp_all add: generateSecret_draws)
  show ?thesis
    using masked secrets makeBuildConfig_secrets [OF assms(1)]
    by (simp add: generateSecret_draws second groups add.commute)
qed

theorem makeBuildConfig_secrets_only_witness:
  "\<exists>bc1 g1' bc2 g2'.
     makeBuildConfig example_config (\<lambda>i. of_nat i / 8) = Inr (bc1, g1') \<and>
     makeBuildConfig example_config (\<lambda>i. 1 / 2) = Inr (bc2, g2') \<and>
     list_all (\<lambda>i. (0::rat) \<le> of_nat i / 8 \<and> of_nat i / 8 < (1::rat)) [0, 1, 2, 3, 4, 5, 6, 7] \<and>
     mask_secrets bc1 = mask_secrets bc2 \<and>
     get_path bc1 generic_secret_path = JStr ''0000200040006000'' \<and>
     get_path bc1 github_secret_path = JStr ''8000a000c000e000'' \<and>
     get_path bc2 generic_secret_path = JStr ''8000800080008000'' \<and>
     get_path bc2 github_secret_path = JStr ''8000800080008000''"
proof -
  obtain bc1 g1' where one: "makeBuildConfig example_config (\<lambda>i. of_nat i / 8) = Inr (bc1, g1')"
    using example_metadata(1) makeBuildConfig_Inr_iff by blast
  obtain bc2 g2' where two: "makeBuildConfig example_config (\<lambda>i. 1 / 2) = Inr (bc2, g2')"
    using example_metadata(1) makeBuildConfig_Inr_iff by blast
  have range1: "\<forall>i<8. (0::rat) \<le> (\<lambda>i. of_nat i / 8) i \<and> (\<lambda>i. of_nat i / 8) i < (1::rat)"
    and range2: "\<forall>i<8. (0::rat) \<le> (\<lambda>i. 1 / 2) i \<and> (\<lambda>i. 1 / 2) i < (1::rat)"
    by simp_all
  have groups:
      "group_of_draw 0 = ''0000''" "group_of_draw (1 / 8) = ''2000''"
      "group_of_draw (2 / 8) = ''4000''" "group_of_draw (3 / 8) = ''6000''"
      "group_of_draw (4 / 8) = ''8000''" "group_of_draw (5 / 8) = ''a000''"
      "group_of_draw (6 / 8) = ''c000''" "group_of_draw (7 / 8) = ''e000''"
      "group_of_draw (1 / 2) = ''8000''"
    by (simp_all add: group_of_draw_def s4_def Math_random_def double_one_plus_def
          round_ties_even_def toString_radix_def radix_digits.simps digitChar_def)
  note first = makeBuildConfig_secrets_only [OF one two range1]
  note other = makeBuildConfig_secrets_only [OF two one range2]
  from first have "mask_secrets bc1 = mask_secrets bc2"
      "get_path bc1 generic_secret_path = JStr ''0000200040006000''"
      "get_path bc1 github_secret_path = JStr ''8000a000c000e000''"
    using groups by simp_all
  moreover from other have "get_path bc2 generic_secret_path = JStr ''8000800080008000''"
      "get_path bc2 github_secret_path = JStr ''8000800080008000''"
    using groups by simp_all
  ultimately show ?thesis
    using one two by simp
qed

text \<open>
  Claim C8. In the BuildConfig produced, \<open>spec.source.git.ref\<close> is \<open>master\<close> when the
  \<open>gitRef\<close> of the config is empty or absent, and is the \<open>gitRef\<close> when that is not
  empty; \<open>spec.source.git.uri\<close> is the repository of the config.
\<close>

theorem makeBuildConfig_gitRef:
  assumes "makeBuildConfig config g = Inr (bc, g')"
  shows "(gitRef config = None \<or> gitRef config = Some [] \<longrightarrow> git_ref bc = JStr ''master'')
       \<and> (\<forall>r. gitRef config = Some r \<and> r \<noteq> [] \<longrightarrow>
                git_ref bc = JStr r \<and> git_uri bc = JStr (repository config))
       \<and> git_uri bc = JStr (repository config)"
  using makeBuildConfig_git [OF assms] by auto

theorem makeBuildConfig_gitRef_witness:
  "\<exists>bc_empty bc_absent bc_branch g1 g2 g3.
     makeBuildConfig example_config (\<lambda>_. 0) = Inr (bc_empty, g1) \<and>
     gitRef example_config = Some [] \<and> git_ref bc_empty = JStr ''master'' \<and>
     makeBuildConfig example_config_no_ports (\<lambda>_. 0) = Inr (bc_absent, g2) \<and>
     gitRef example_config_no_ports = None \<and> git_ref bc_absent = JStr ''master'' \<and>
     makeBuildConfig example_config_branch (\<lambda>_. 0) = Inr (bc_branch, g3) \<and>
     gitRef example_config_branch = Some ''develop'' \<and> git_ref bc_branch = JStr ''develop'' \<and>
     git_uri bc_branch = JStr ''https://example.com/api.git''"
proof -
  obtain bc1 g1 where one: "makeBuildConfig example_config (\<lambda>_. 0) = Inr (bc1, g1)"
    using example_metadata(1) makeBuildConfig_Inr_iff by blast
  obtain bc2 g2 where two: "makeBuildConfig example_config_no_ports (\<lambda>_. 0) = Inr (bc2, g2)"
    using example_metadata(2) makeBuildConfig_Inr_iff by blast
  obtain bc3 g3 where three: "makeBuildConfig example_config_branch (\<lambda>_. 0) = Inr (bc3, g3)"
    using example_metadata(3) makeBuildConfig_Inr_iff by blast
  have refs: "gitRef example_config = Some []" "gitRef example_config_no_ports = None"
      "gitRef example_config_branch = Some ''develop''"
      "repository example_config_branch = ''https://example.com/api.git''"
    by (simp_all add: example_config_def example_config_no_ports_def example_config_branch_def)
  from makeBuildConfig_gitRef [OF one] refs have "git_ref bc1 = JStr ''master''"
    by simp
  moreover from makeBuildConfig_gitRef [OF two] refs have "git_ref bc2 = JStr ''master''"
    by simp
  moreover from makeBuildConfig_gitRef [OF three] refs
  have "git_ref bc3 = JStr ''develop''" "git_uri bc3 = JStr ''https://example.com/api.git''"
    by simp_all
  ultimately show ?thesis
    using one two three refs by blast
qed

text \<open>
  Claim C9. When the \<open>contextDir\<close> of the config is empty or absent, the \<open>spec.source\<close> of
  the BuildConfig produced has no \<open>contextDir\<close> key at all (its keys are \<open>git\<close> and
  \<open>type\<close>); when it is truthy, \<open>spec.source.contextDir\<close> is the \<open>contextDir\<close> of the config.
\<close>

theorem makeBuildConfig_contextDir:
  assumes "makeBuildConfig config g = Inr (bc, g')"
  shows "(contextDir config = None \<or> contextDir config = Some [] \<longrightarrow>
            \<not> has_key (source_of bc) ''contextDir'' \<and>
            map fst (properties (source_of bc)) = [''git'', ''type''])
       \<and> (\<forall>d. contextDir config = Some d \<and> d \<noteq> [] \<longrightarrow>
                has_key (source_of bc) ''contextDir'' \<and>
                get_path (source_of bc) [Key ''contextDir''] = JStr d)"
  using makeBuildConfig_source [OF assms] by (auto simp: has_key_properties)

theorem makeBuildConfig_contextDir_witness:
  "\<exists>bc_empty bc_absent bc_dir g1 g2 g3.
     makeBuildConfig example_config (\<lambda>_. 0) = Inr (bc_empty, g1) \<and>
     contextDir example_config = Some [] \<and> \<not> has_key (source_of bc_empty) ''contextDir'' \<and>
     makeBuildConfig example_config_no_ports (\<lambda>_. 0) = Inr (bc_absent, g2) \<and>
     contextDir example_config_no_ports = None \<and> \<not> has_key (source_of bc_absent) ''contextDir'' \<and>
     makeBuildConfig example_config_branch (\<lambda>_. 0) = Inr (bc_dir, g3) \<and>
     contextDir example_config_branch = Some ''server'' \<and>
     get_path (source_of bc_dir) [Key ''contextDir''] = JStr ''server''"
proof -
  obtain bc1 g1 where one: "makeBuildConfig example_config (\<lambda>_. 0) = Inr (bc1, g1)"
    using example_metadata(1) makeBuildConfig_Inr_iff by blast
  obtain bc2 g2 where two: "makeBuildConfig example_config_no_ports (\<lambda>_. 0) = Inr (bc2, g2)"
    using example_metadata(2) makeBuildConfig_Inr_iff by blast
  obtain bc3 g3 where three: "makeBuildConfig example_config_branch (\<lambda>_. 0) = Inr (bc3, g3)"
    using example_metadata(3) makeBuildConfig_Inr_iff by blast
  have dirs: "contextDir example_config = Some []" "contextDir example_config_no_ports = None"
      "contextDir example_config_branch = Some ''server''"
    by (simp_all add: example_config_def example_config_no_ports_def example_config_branch_def)
  from makeBuildConfig_contextDir [OF one] dirs have "\<not> has_key (source_of bc1) ''contextDir''"
    by simp
  moreover from makeBuildConfig_contextDir [OF two] dirs have "\<not> has_key (source_of bc2) ''contextDir''"
    by simp
  moreover from makeBuildConfig_contextDir [OF three] dirs
  have "get_path (source_of bc3) [Key ''contextDir''] = JStr ''server''"
    by simp
  ultimately show ?thesis
    using one two three dirs by blast
qed

end
